theory Spec2Isabelle
  imports Complex_Main
begin

section \<open>Values, errors and engine objects\<close>

text \<open>
  The controller is Python over the Panda3D scene graph. Python computes in double
  precision and the engine stores a node's coordinates in single precision; here every
  number is an exact real, so rounding, infinities and NaN are outside the model, and so
  is every property that rounding decides.
  A method result that may be Python's \<open>None\<close> is a \<open>pyval\<close>; an exception is
  a value of \<open>error\<close>, returned as \<open>Inl\<close>.
\<close>

datatype pyval = PyNone | PyNum real

datatype error = TypeError | AttributeError

type_synonym vec3 = "real \<times> real \<times> real"

definition vsub :: "vec3 \<Rightarrow> vec3 \<Rightarrow> vec3" where
  "vsub a b = (case a of (ax, ay, az) \<Rightarrow> case b of (bx, by, bz) \<Rightarrow> (ax - bx, ay - by, az - bz))"

definition vlength :: "vec3 \<Rightarrow> real" where
  "vlength v = (case v of (x, y, z) \<Rightarrow> sqrt (x * x + y * y + z * z))"

text \<open>
  The identity of a scene-graph node: one borrowed from the caller (the owner, the
  camera), or one of the three nodes the controller creates
  (\<open>"third-person camera-base"\<close>, \<open>"third-person camera-holder"\<close>,
  \<open>"camera collider"\<close>).
\<close>

datatype node_id = Borrowed nat | CameraBaseNode | CameraHolderNode | CameraColliderNode

text \<open>A \<open>NodePath\<close> the controller holds: the node and the local transform it reads and writes.\<close>

record nodePath =
  node :: node_id
  posX :: real
  posY :: real
  posZ :: real
  pitch :: real

definition attachNewNode :: "node_id \<Rightarrow> nodePath" where
  "attachNewNode n = \<lparr>node = n, posX = 0, posY = 0, posZ = 0, pitch = 0\<rparr>"

record collisionSegment =
  pointA :: vec3
  pointB :: vec3

definition CollisionSegment :: "real \<Rightarrow> real \<Rightarrow> real \<Rightarrow> real \<Rightarrow> real \<Rightarrow> real \<Rightarrow> collisionSegment" where
  "CollisionSegment ax ay az bx by bz = \<lparr>pointA = (ax, ay, az), pointB = (bx, by, bz)\<rparr>"

record collisionNode =
  solids :: "collisionSegment list"
  intoCollideMask :: nat
  fromCollideMask :: nat

record collisionTraverser =
  colliders :: "node_id list"

datatype collisionHandlerQueue = CollisionHandlerQueue

text \<open>
  The calls that release something in the engine; \<open>engineCalls\<close> of a rig is the
  trace of those made so far.
\<close>

datatype call = DetachNode node_id | RemoveNode node_id | RemoveCollider node_id

text \<open>
  What one traversal of a scene root leaves in the collision queue: for each
  intersection the solid of the collider that found it (\<open>getFrom\<close>) and where on that
  segment the surface point lies, as a fraction of the way from \<open>pointA\<close> (0) to
  \<open>pointB\<close> (1). \<open>ownerToScene\<close> is the owner's net transform, taking a position
  in the owner's frame to the scene root's.
\<close>

record collisionEntry =
  fromSolid :: collisionSegment
  fraction :: real

record scene =
  hits :: "collisionEntry list"
  ownerToScene :: "vec3 \<Rightarrow> vec3"

text \<open>
  The engine's side of an entry. The surface point in the collider's frame, which is the
  anchor's (the collider is attached to the anchor with no transform of its own); the
  same point seen from a node's parent, a node placing its frame at its position, pitched
  about the X axis by its pitch in degrees; and the key of the engine's
  \<open>sortEntries\<close>, which orders the queue by the distance of the surface point from the
  origin of the solid that found it: for a segment, its \<open>pointA\<close>.
\<close>

definition localSurfacePoint :: "collisionEntry \<Rightarrow> vec3" where
  "localSurfacePoint e =
     (case pointA (fromSolid e) of (ax, ay, az) \<Rightarrow>
      case pointB (fromSolid e) of (bx, by, bz) \<Rightarrow>
        (ax + fraction e * (bx - ax), ay + fraction e * (by - ay), az + fraction e * (bz - az)))"

definition toParent :: "nodePath \<Rightarrow> vec3 \<Rightarrow> vec3" where
  "toParent np p =
     (case p of (x, y, z) \<Rightarrow>
        (posX np + x,
         posY np + (y * cos (pitch np * pi / 180) - z * sin (pitch np * pi / 180)),
         posZ np + (y * sin (pitch np * pi / 180) + z * cos (pitch np * pi / 180))))"

definition entryKey :: "collisionEntry \<Rightarrow> real" where
  "entryKey e = vlength (vsub (localSurfacePoint e) (pointA (fromSolid e)))"

section \<open>The rig\<close>

text \<open>
  The attributes of a \<open>SimpleThirdPersonCamera\<close> object, and those its subclass
  \<open>SimpleThirdPersonCameraPandaCollision\<close> adds (\<open>colliderRadius\<close> to
  \<open>collider\<close>). An attribute that holds \<open>None\<close>, or that the object does not
  have, is \<open>None\<close> here: reading through either raises \<open>AttributeError\<close>.
\<close>

record rig =
  camera :: "node_id option"
  ownerNodePath :: "node_id option"
  shoulderSideDistance :: real
  intendedDistance :: real
  height :: real
  tilt :: real
  sideSwitchSpeed :: real
  adjustmentSpeed :: real
  cameraBase :: "nodePath option"
  cameraHolder :: nodePath
  currentSide :: int
  colliderRadius :: "real option"
  traverser :: "collisionTraverser option"
  collisionQueue :: "collisionHandlerQueue option"
  colliderNode :: "collisionNode option"
  collider :: "nodePath option"
  engineCalls :: "call list"

text \<open>
  The three overridable methods, bound by the object's class: \<open>update\<close>,
  \<open>cleanup\<close> and the constructor call them through \<open>self\<close>.
\<close>

record methods =
  setupCollision :: "rig \<Rightarrow> error + rig"
  getNearestCollision :: "rig \<Rightarrow> scene \<Rightarrow> error + pyval"
  cleanupCollision :: "rig \<Rightarrow> error + rig"

definition SIMPLE_THIRD_PERSON_CAMERA_SIDE_LEFT :: int where
  "SIMPLE_THIRD_PERSON_CAMERA_SIDE_LEFT = -1"

definition SIMPLE_THIRD_PERSON_CAMERA_SIDE_CENTRE :: int where
  "SIMPLE_THIRD_PERSON_CAMERA_SIDE_CENTRE = 0"

definition SIMPLE_THIRD_PERSON_CAMERA_SIDE_CENTER :: int where
  "SIMPLE_THIRD_PERSON_CAMERA_SIDE_CENTER = 0"

definition SIMPLE_THIRD_PERSON_CAMERA_SIDE_RIGHT :: int where
  "SIMPLE_THIRD_PERSON_CAMERA_SIDE_RIGHT = 1"

subsection \<open>The base class\<close>

definition Base_setupCollision :: "rig \<Rightarrow> error + rig" where
  "Base_setupCollision self = Inr self"

definition Base_getNearestCollision :: "rig \<Rightarrow> scene \<Rightarrow> error + pyval" where
  "Base_getNearestCollision self sceneRoot = Inr PyNone"

definition Base_cleanupCollision :: "rig \<Rightarrow> error + rig" where
  "Base_cleanupCollision self = Inr self"

definition SimpleThirdPersonCamera :: methods where
  "SimpleThirdPersonCamera =
     \<lparr>setupCollision = Base_setupCollision,
      getNearestCollision = Base_getNearestCollision,
      cleanupCollision = Base_cleanupCollision\<rparr>"

definition setCurrentSide :: "int \<Rightarrow> rig \<Rightarrow> rig" where
  "setCurrentSide side self = self\<lparr>currentSide := side\<rparr>"

text \<open>
  The constructor. \<open>cr\<close> is the one attribute the object may already have when the
  base constructor runs: the subclass stores \<open>colliderRadius\<close> before calling it.
  \<open>currentSide\<close> is first assigned after \<open>setupCollision\<close> has run; until
  then 0 stands in for it, and neither class's \<open>setupCollision\<close> reads it.
\<close>

definition init ::
  "methods \<Rightarrow> real option \<Rightarrow> real \<Rightarrow> real \<Rightarrow> real \<Rightarrow> real \<Rightarrow> real \<Rightarrow> real \<Rightarrow> int \<Rightarrow> node_id \<Rightarrow> node_id
     \<Rightarrow> error + rig" where
  "init cls cr tilt' intendedDistance' shoulderSideDistance' height' adjustmentSpeed'
        sideSwitchSpeed' initialShoulderSide ownerNodePath' camera' =
     (let self =
        \<lparr>camera = Some camera',
         ownerNodePath = Some ownerNodePath',
         shoulderSideDistance = shoulderSideDistance',
         intendedDistance = intendedDistance',
         height = height',
         tilt = tilt',
         sideSwitchSpeed = sideSwitchSpeed',
         adjustmentSpeed = adjustmentSpeed',
         cameraBase = Some ((attachNewNode CameraBaseNode)\<lparr>posZ := height', pitch := tilt'\<rparr>),
         cameraHolder = (attachNewNode CameraHolderNode)\<lparr>posY := - intendedDistance'\<rparr>,
         currentSide = 0,
         colliderRadius = cr,
         traverser = None,
         collisionQueue = None,
         colliderNode = None,
         collider = None,
         engineCalls = []\<rparr>
      in case setupCollision cls self of
           Inl e \<Rightarrow> Inl e
         | Inr self \<Rightarrow>
             Inr (setCurrentSide initialShoulderSide
                    (self\<lparr>currentSide := SIMPLE_THIRD_PERSON_CAMERA_SIDE_CENTRE\<rparr>)))"

text \<open>
  \<open>update\<close>. The comparison \<open>targetY > collisionDistance\<close> raises
  \<open>TypeError\<close> when the probe returned \<open>None\<close> (Python 3 does not order a
  number and \<open>None\<close>); \<open>self.cameraBase.getX()\<close> raises
  \<open>AttributeError\<close> once \<open>cleanup\<close> has set \<open>cameraBase\<close> to
  \<open>None\<close>. An error ends the call: the result is the error alone, and what the call
  had written before it is not part of the result.
\<close>

definition update :: "methods \<Rightarrow> real \<Rightarrow> scene \<Rightarrow> rig \<Rightarrow> error + rig" where
  "update cls dt sceneRoot self =
     (let currentDistance = \<bar>posY (cameraHolder self)\<bar>;
          targetY = intendedDistance self
      in case getNearestCollision cls self sceneRoot of
           Inl e \<Rightarrow> Inl e
         | Inr PyNone \<Rightarrow> Inl TypeError
         | Inr (PyNum collisionDistance) \<Rightarrow>
            (let targetY = (if targetY > collisionDistance then collisionDistance else targetY);
                 yDiff = targetY - currentDistance;
                 offsetVal = adjustmentSpeed self * dt;
                 offsetVal = (if offsetVal > 1 then 1 else offsetVal);
                 offset = yDiff * offsetVal;
                 self = self\<lparr>cameraHolder := (cameraHolder self)\<lparr>posY := - currentDistance - offset\<rparr>\<rparr>
             in case cameraBase self of
                  None \<Rightarrow> Inl AttributeError
                | Some base \<Rightarrow>
                   (let currentSideDistance = posX base;
                        sideDiff = shoulderSideDistance self * of_int (currentSide self)
                                     - currentSideDistance;
                        currentSideDistance =
                          (if \<bar>sideDiff\<bar> < 0.001
                           then shoulderSideDistance self * of_int (currentSide self)
                           else (let offsetVal = sideSwitchSpeed self * dt;
                                     offsetVal = (if offsetVal > 1 then 1 else offsetVal);
                                     offset = sideDiff * offsetVal
                                 in currentSideDistance + offset))
                    in Inr (self\<lparr>cameraBase := Some (base\<lparr>posX := currentSideDistance\<rparr>)\<rparr>))))"

definition cleanup :: "methods \<Rightarrow> rig \<Rightarrow> error + rig" where
  "cleanup cls self =
     (let self = (case camera self of
                    Some c \<Rightarrow> self\<lparr>camera := None, engineCalls := engineCalls self @ [DetachNode c]\<rparr>
                  | None \<Rightarrow> self);
          self = (case ownerNodePath self of
                    Some ow \<Rightarrow> self\<lparr>ownerNodePath := None\<rparr>
                  | None \<Rightarrow> self)
      in case cleanupCollision cls self of
           Inl e \<Rightarrow> Inl e
         | Inr self \<Rightarrow>
            Inr (case cameraBase self of
                   Some base \<Rightarrow>
                     self\<lparr>cameraBase := None,
                          engineCalls := engineCalls self @ [RemoveNode (node base)]\<rparr>
                 | None \<Rightarrow> self))"

subsection \<open>The subclass using the engine's collision system\<close>

definition Panda_setupCollision :: "rig \<Rightarrow> error + rig" where
  "Panda_setupCollision self =
     (case colliderRadius self of
        None \<Rightarrow> Inl AttributeError
      | Some r \<Rightarrow>
         (case cameraBase self of
            None \<Rightarrow> Inl AttributeError
          | Some base \<Rightarrow>
             Inr (self\<lparr>traverser := Some \<lparr>colliders = [CameraColliderNode]\<rparr>,
                      collisionQueue := Some CollisionHandlerQueue,
                      colliderNode := Some
                        \<lparr>solids =
                           [CollisionSegment (- r) (- r) 0 (- r) (- intendedDistance self) 0,
                            CollisionSegment r (- r) 0 r (- intendedDistance self) 0,
                            CollisionSegment 0 (- r) (- r) 0 (- intendedDistance self) (- r),
                            CollisionSegment 0 (- r) r 0 (- intendedDistance self) r],
                         intoCollideMask = 0,
                         fromCollideMask = 1\<rparr>,
                      collider := Some (attachNewNode CameraColliderNode)\<rparr>)))"

text \<open>
  \<open>sortEntries\<close> is the engine's: it orders the queue by \<open>entryKey\<close>,
  nearest first. \<open>getEntry(0)\<close> is read only when the queue is not empty, so the
  branch for an empty sorted queue is never taken. The entries themselves stay in the
  engine's queue object: the rig holds the reference only, and the probe leaves the rig
  as it is. \<open>getPos\<close> and \<open>getSurfacePoint\<close> give the anchor's position and an
  entry's surface point in the scene root's coordinates.
\<close>

definition sortEntries :: "collisionEntry list \<Rightarrow> collisionEntry list" where
  "sortEntries es = sort_key entryKey es"

definition getPos :: "nodePath \<Rightarrow> scene \<Rightarrow> vec3" where
  "getPos np sceneRoot = ownerToScene sceneRoot (posX np, posY np, posZ np)"

definition getSurfacePoint :: "collisionEntry \<Rightarrow> nodePath \<Rightarrow> scene \<Rightarrow> vec3" where
  "getSurfacePoint e base sceneRoot = ownerToScene sceneRoot (toParent base (localSurfacePoint e))"

definition Panda_getNearestCollision :: "rig \<Rightarrow> scene \<Rightarrow> error + pyval" where
  "Panda_getNearestCollision self sceneRoot =
     (case traverser self of
        None \<Rightarrow> Inl AttributeError
      | Some trav \<Rightarrow>
         (case collisionQueue self of
            None \<Rightarrow> Inl AttributeError
          | Some queue \<Rightarrow>
             (let entries = hits sceneRoot
              in if length entries > 0
                 then (case sortEntries entries of
                         [] \<Rightarrow> Inl AttributeError
                       | entry # rest \<Rightarrow>
                          (case cameraBase self of
                             None \<Rightarrow> Inl AttributeError
                           | Some base \<Rightarrow>
                              (let pos = getSurfacePoint entry base sceneRoot;
                                   diff = vsub (getPos base sceneRoot) pos
                               in Inr (PyNum (vlength diff)))))
                 else Inr (PyNum (intendedDistance self)))))"

definition Panda_cleanupCollision :: "rig \<Rightarrow> error + rig" where
  "Panda_cleanupCollision self =
     (case (case collider self of
              Some c \<Rightarrow>
               (case traverser self of
                  None \<Rightarrow> Inl AttributeError
                | Some trav \<Rightarrow>
                   Inr (self\<lparr>collider := None, colliderNode := None,
                            engineCalls := engineCalls self @ [RemoveCollider (node c), RemoveNode (node c)]\<rparr>))
            | None \<Rightarrow> Inr self) of
        Inl e \<Rightarrow> Inl e
      | Inr self \<Rightarrow> Inr (self\<lparr>traverser := None, collisionQueue := None\<rparr>))"

definition SimpleThirdPersonCameraPandaCollision :: methods where
  "SimpleThirdPersonCameraPandaCollision =
     \<lparr>setupCollision = Panda_setupCollision,
      getNearestCollision = Panda_getNearestCollision,
      cleanupCollision = Panda_cleanupCollision\<rparr>"

text \<open>
  The subclass's constructor, with \<open>colliderRadius\<close> passed explicitly (the source
  defaults it to 1).
\<close>

definition Panda_init ::
  "real \<Rightarrow> real \<Rightarrow> real \<Rightarrow> real \<Rightarrow> real \<Rightarrow> real \<Rightarrow> int \<Rightarrow> node_id \<Rightarrow> node_id \<Rightarrow> real \<Rightarrow> error + rig" where
  "Panda_init tilt' intendedDistance' shoulderSideDistance' height' adjustmentSpeed'
              sideSwitchSpeed' initialShoulderSide ownerNodePath' camera' colliderRadius' =
     init SimpleThirdPersonCameraPandaCollision (Some colliderRadius')
          tilt' intendedDistance' shoulderSideDistance' height' adjustmentSpeed'
          sideSwitchSpeed' initialShoulderSide ownerNodePath' camera'"

section \<open>Notions of the specification\<close>

text \<open>The specification's \<open>clamp(x, lo, hi)\<close>, as it words the blend factors.\<close>

definition clamp :: "real \<Rightarrow> real \<Rightarrow> real \<Rightarrow> real" where
  "clamp x lo hi = max lo (min hi x)"

text \<open>The holder's distance value: what \<open>update\<close> reads as \<open>currentDistance\<close>.\<close>

definition holderDistance :: "rig \<Rightarrow> real" where
  "holderDistance self = \<bar>posY (cameraHolder self)\<bar>"

text \<open>The anchor's lateral offset; 0 stands in when the anchor has been released.\<close>

definition lateralOffset :: "rig \<Rightarrow> real" where
  "lateralOffset self = (case cameraBase self of Some base \<Rightarrow> posX base | None \<Rightarrow> 0)"

text \<open>
  \<open>repositioned r r'\<close>: \<open>r'\<close> is \<open>r\<close> with other transforms on its two nodes,
  which is all that \<open>update\<close> changes.
\<close>

definition repositioned :: "rig \<Rightarrow> rig \<Rightarrow> bool" where
  "repositioned r r' \<longleftrightarrow>
     cameraBase r' \<noteq> None \<and> r'\<lparr>cameraBase := cameraBase r, cameraHolder := cameraHolder r\<rparr> = r"

text \<open>A sequence of \<open>update\<close> calls, one per tick \<open>(dt, sceneRoot)\<close>, stopping at the first error.\<close>

fun updates :: "methods \<Rightarrow> (real \<times> scene) list \<Rightarrow> rig \<Rightarrow> error + rig" where
  "updates cls [] self = Inr self"
| "updates cls ((dt, sceneRoot) # ticks) self =
     (case update cls dt sceneRoot self of
        Inl e \<Rightarrow> Inl e
      | Inr self' \<Rightarrow> updates cls ticks self')"

text \<open>What the probe returns in each \<open>update\<close> of such a sequence, up to the first error.\<close>

fun probeResults :: "methods \<Rightarrow> (real \<times> scene) list \<Rightarrow> rig \<Rightarrow> (error + pyval) list" where
  "probeResults cls [] self = []"
| "probeResults cls ((dt, sceneRoot) # ticks) self =
     getNearestCollision cls self sceneRoot #
       (case update cls dt sceneRoot self of
          Inl e \<Rightarrow> []
        | Inr self' \<Rightarrow> probeResults cls ticks self')"

text \<open>A sequence of calls from the host: \<open>setCurrentSide\<close> and \<open>update\<close> in any order.\<close>

datatype host_call = SetCurrentSide int | Update real scene

fun calls :: "methods \<Rightarrow> host_call list \<Rightarrow> rig \<Rightarrow> error + rig" where
  "calls cls [] self = Inr self"
| "calls cls (SetCurrentSide side # cs) self = calls cls cs (setCurrentSide side self)"
| "calls cls (Update dt sceneRoot # cs) self =
     (case update cls dt sceneRoot self of
        Inl e \<Rightarrow> Inl e
      | Inr self' \<Rightarrow> calls cls cs self')"

fun sidesPassed :: "host_call list \<Rightarrow> int list" where
  "sidesPassed [] = []"
| "sidesPassed (SetCurrentSide side # cs) = side # sidesPassed cs"
| "sidesPassed (Update dt sceneRoot # cs) = sidesPassed cs"

text \<open>The distance from the anchor position to an intersection's surface point.\<close>

definition anchorDistance :: "nodePath \<Rightarrow> scene \<Rightarrow> collisionEntry \<Rightarrow> real" where
  "anchorDistance base sceneRoot e =
     vlength (vsub (getPos base sceneRoot) (getSurfacePoint e base sceneRoot))"

text \<open>
  A rig whose collision objects are set up as \<open>setupCollision\<close> leaves them: the
  traverser, the queue, and the collider node with the four segments for the rig's
  \<open>colliderRadius\<close> and \<open>intendedDistance\<close>. A scene whose intersections lie on
  those segments. An owner placed in the scene without scale, so that its transform keeps
  distances.
\<close>

definition fourSegments :: "real \<Rightarrow> real \<Rightarrow> collisionSegment list" where
  "fourSegments cr d =
     [CollisionSegment (- cr) (- cr) 0 (- cr) (- d) 0,
      CollisionSegment cr (- cr) 0 cr (- d) 0,
      CollisionSegment 0 (- cr) (- cr) 0 (- d) (- cr),
      CollisionSegment 0 (- cr) cr 0 (- d) cr]"

definition collisionSetUp :: "rig \<Rightarrow> bool" where
  "collisionSetUp self \<longleftrightarrow>
     traverser self \<noteq> None \<and> collisionQueue self \<noteq> None \<and>
     (case colliderRadius self of
        None \<Rightarrow> False
      | Some cr \<Rightarrow>
         (case colliderNode self of
            None \<Rightarrow> False
          | Some cn \<Rightarrow> solids cn = fourSegments cr (intendedDistance self)))"

definition onSegments :: "rig \<Rightarrow> scene \<Rightarrow> bool" where
  "onSegments self sceneRoot \<longleftrightarrow>
     (case colliderNode self of
        None \<Rightarrow> False
      | Some cn \<Rightarrow>
         list_all (\<lambda>e. fromSolid e \<in> set (solids cn) \<and> 0 \<le> fraction e \<and> fraction e \<le> 1)
           (hits sceneRoot))"

definition rigid :: "(vec3 \<Rightarrow> vec3) \<Rightarrow> bool" where
  "rigid f \<longleftrightarrow> (\<forall>p q. vlength (vsub (f p) (f q)) = vlength (vsub p q))"

section \<open>Concrete rigs and scenes\<close>

text \<open>
  The controller the demo program's \<open>Player\<close> constructs, with the owner and the
  camera as the borrowed nodes 0 and 1.
\<close>

definition Player_cameraController :: rig where
  "Player_cameraController =
     projr (Panda_init (-5) 5 0.5 2.0 7.0 10.0 SIMPLE_THIRD_PERSON_CAMERA_SIDE_LEFT
              (Borrowed 0) (Borrowed 1) 0.5)"

text \<open>The same controller without tilt, so that its four segments have rational end points.\<close>

definition levelController :: rig where
  "levelController =
     projr (Panda_init 0 5 0.5 2.0 7.0 10.0 SIMPLE_THIRD_PERSON_CAMERA_SIDE_LEFT
              (Borrowed 0) (Borrowed 1) 0.5)"

text \<open>A base-class object with the same parameters.\<close>

definition baseController :: rig where
  "baseController =
     projr (init SimpleThirdPersonCamera None (-5) 5 0.5 2.0 7.0 10.0
              SIMPLE_THIRD_PERSON_CAMERA_SIDE_LEFT (Borrowed 0) (Borrowed 1))"

text \<open>
  Scenes, with the owner at the scene root's origin and unrotated. \<open>openScene\<close> has
  nothing behind the owner. \<open>wallScene\<close> has two intersections with the segments of
  \<open>levelController\<close> (radius 0.5, length 4.5): one on the third segment, 1.975 along
  it, and one on the first, 0.7 along it. \<open>farWallScene\<close> has one intersection, at the
  far end of the first segment.
\<close>

definition openScene :: scene where
  "openScene = \<lparr>hits = [], ownerToScene = (\<lambda>p. p)\<rparr>"

definition wallScene :: scene where
  "wallScene =
     \<lparr>hits = [\<lparr>fromSolid = CollisionSegment 0 (- 0.5) (- 0.5) 0 (- 5) (- 0.5),
               fraction = 79 / 180\<rparr>,
              \<lparr>fromSolid = CollisionSegment (- 0.5) (- 0.5) 0 (- 0.5) (- 5) 0,
               fraction = 7 / 45\<rparr>],
      ownerToScene = (\<lambda>p. p)\<rparr>"

definition farWallScene :: scene where
  "farWallScene =
     \<lparr>hits = [\<lparr>fromSolid = CollisionSegment (- 0.5) (- 0.5) 0 (- 0.5) (- 5) 0,
               fraction = 1\<rparr>],
      ownerToScene = (\<lambda>p. p)\<rparr>"

section \<open>Evaluating the constructor and the examples\<close>

lemma Panda_init_Inr:
  "Panda_init t d s h a w side ow cam cr =
     Inr \<lparr>camera = Some cam, ownerNodePath = Some ow, shoulderSideDistance = s,
          intendedDistance = d, height = h, tilt = t, sideSwitchSpeed = w, adjustmentSpeed = a,
          cameraBase = Some \<lparr>node = CameraBaseNode, posX = 0, posY = 0, posZ = h, pitch = t\<rparr>,
          cameraHolder = \<lparr>node = CameraHolderNode, posX = 0, posY = - d, posZ = 0, pitch = 0\<rparr>,
          currentSide = side, colliderRadius = Some cr,
          traverser = Some \<lparr>colliders = [CameraColliderNode]\<rparr>,
          collisionQueue = Some CollisionHandlerQueue,
          colliderNode = Some
            \<lparr>solids = [CollisionSegment (- cr) (- cr) 0 (- cr) (- d) 0,
                       CollisionSegment cr (- cr) 0 cr (- d) 0,
                       CollisionSegment 0 (- cr) (- cr) 0 (- d) (- cr),
                       CollisionSegment 0 (- cr) cr 0 (- d) cr],
             intoCollideMask = 0, fromCollideMask = 1\<rparr>,
          collider = Some \<lparr>node = CameraColliderNode, posX = 0, posY = 0, posZ = 0, pitch = 0\<rparr>,
          engineCalls = []\<rparr>"
  by (simp add: Panda_init_def init_def SimpleThirdPersonCameraPandaCollision_def
      Panda_setupCollision_def setCurrentSide_def attachNewNode_def Let_def)

lemma Base_init_Inr:
  "init SimpleThirdPersonCamera cr t d s h a w side ow cam =
     Inr \<lparr>camera = Some cam, ownerNodePath = Some ow, shoulderSideDistance = s,
          intendedDistance = d, height = h, tilt = t, sideSwitchSpeed = w, adjustmentSpeed = a,
          cameraBase = Some \<lparr>node = CameraBaseNode, posX = 0, posY = 0, posZ = h, pitch = t\<rparr>,
          cameraHolder = \<lparr>node = CameraHolderNode, posX = 0, posY = - d, posZ = 0, pitch = 0\<rparr>,
          currentSide = side, colliderRadius = cr,
          traverser = None, collisionQueue = None, colliderNode = None, collider = None,
          engineCalls = []\<rparr>"
  by (simp add: init_def SimpleThirdPersonCamera_def
      Base_setupCollision_def setCurrentSide_def attachNewNode_def Let_def)

lemmas example_rigs =
  Player_cameraController_def levelController_def baseController_def
  Panda_init_Inr Base_init_Inr SIMPLE_THIRD_PERSON_CAMERA_SIDE_LEFT_def

lemma sqrt_169_100: "sqrt (169 / 100) = 13 / 10"
  by (rule real_sqrt_unique) (simp_all add: power2_eq_square)

lemma wallScene_probe:
  "getNearestCollision SimpleThirdPersonCameraPandaCollision levelController wallScene
     = Inr (PyNum (13 / 10))"
  by (simp add: SimpleThirdPersonCameraPandaCollision_def Panda_getNearestCollision_def
      example_rigs wallScene_def sortEntries_def entryKey_def localSurfacePoint_def
      CollisionSegment_def getPos_def getSurfacePoint_def toParent_def vsub_def vlength_def
      sqrt_169_100)

lemma openScene_probe:
  "getNearestCollision SimpleThirdPersonCameraPandaCollision Player_cameraController openScene
     = Inr (PyNum 5)"
  by (simp add: SimpleThirdPersonCameraPandaCollision_def Panda_getNearestCollision_def
      example_rigs openScene_def)

section \<open>The blend step\<close>

text \<open>
  Both smoothing steps compute \<open>c + (t - c) * k\<close>: the current value \<open>c\<close>, the
  target \<open>t\<close>, the blend factor \<open>k\<close>. What is left to the target is
  \<open>(c - t) * (1 - k)\<close>.
\<close>

lemma blend_residual:
  fixes c t k :: real
  shows "c + (t - c) * k - t = (c - t) * (1 - k)"
  by (simp add: algebra_simps)


lemma blend_toward:
  fixes c t k :: real
  assumes "0 < k" "k \<le> 1" "c \<noteq> t"
  shows "\<bar>c + (t - c) * k - t\<bar> < \<bar>c - t\<bar>"
proof -
  have "\<bar>(c - t) * (1 - k)\<bar> = \<bar>c - t\<bar> * (1 - k)" using assms(2) by (simp add: abs_mult)
  moreover have "\<bar>c - t\<bar> * (1 - k) < \<bar>c - t\<bar> * 1"
    using assms by (intro mult_strict_left_mono) auto
  ultimately show ?thesis unfolding blend_residual by simp
qed

lemma blend_same_side:
  fixes c t k :: real
  assumes "k \<le> 1"
  shows "(c \<le> t \<longrightarrow> c + (t - c) * k \<le> t) \<and> (t \<le> c \<longrightarrow> t \<le> c + (t - c) * k)"
proof -
  have r: "c + (t - c) * k - t = (c - t) * (1 - k)" by (rule blend_residual)
  have k: "0 \<le> 1 - k" using assms by simp
  { assume "c \<le> t"
    then have "(c - t) * (1 - k) \<le> 0" using k by (simp add: mult_nonpos_nonneg)
    with r have "c + (t - c) * k \<le> t" by simp }
  moreover
  { assume "t \<le> c"
    then have "0 \<le> (c - t) * (1 - k)" using k by simp
    with r have "t \<le> c + (t - c) * k" by simp }
  ultimately show ?thesis by blast
qed

lemma blend_between:
  fixes c t k lo hi :: real
  assumes "0 \<le> k" "k \<le> 1" "lo \<le> c" "c \<le> hi" "lo \<le> t" "t \<le> hi"
  shows "lo \<le> c + (t - c) * k \<and> c + (t - c) * k \<le> hi"
proof -
  have e: "c + (t - c) * k = (1 - k) * c + k * t" by (simp add: algebra_simps)
  have k': "0 \<le> 1 - k" using assms(2) by simp
  have "(1 - k) * lo \<le> (1 - k) * c" "k * lo \<le> k * t"
    using assms k' by (auto intro: mult_left_mono)
  then have "(1 - k) * lo + k * lo \<le> (1 - k) * c + k * t" by linarith
  then have lo: "lo \<le> (1 - k) * c + k * t" by (simp add: algebra_simps)
  have "(1 - k) * c \<le> (1 - k) * hi" "k * t \<le> k * hi"
    using assms k' by (auto intro: mult_left_mono)
  then have "(1 - k) * c + k * t \<le> (1 - k) * hi + k * hi" by linarith
  then have hi: "(1 - k) * c + k * t \<le> hi" by (simp add: algebra_simps)
  from lo hi show ?thesis unfolding e by simp
qed

section \<open>One tick\<close>

text \<open>
  What a completed \<open>update\<close> leaves: it completes when the probe returned a number
  and the anchor has not been released, and then writes exactly two coordinates.
\<close>

lemma update_Inr:
  assumes "getNearestCollision cls r sc = Inr (PyNum od)" and "cameraBase r = Some b"
  shows "update cls dt sc r =
     Inr (r\<lparr>cameraHolder := (cameraHolder r)\<lparr>posY :=
                - \<bar>posY (cameraHolder r)\<bar>
                - (min (intendedDistance r) od - \<bar>posY (cameraHolder r)\<bar>)
                    * min (adjustmentSpeed r * dt) 1\<rparr>,
            cameraBase := Some (b\<lparr>posX :=
               (if \<bar>shoulderSideDistance r * of_int (currentSide r) - posX b\<bar> < 0.001
                then shoulderSideDistance r * of_int (currentSide r)
                else posX b + (shoulderSideDistance r * of_int (currentSide r) - posX b)
                                * min (sideSwitchSpeed r * dt) 1)\<rparr>)\<rparr>)"
  using assms by (simp add: update_def Let_def min_def)

lemma clamp_nonneg: "0 \<le> x \<Longrightarrow> clamp x 0 1 = min x 1"
  by (simp add: clamp_def min_def max_def)

lemma repositioned_fields:
  assumes "repositioned r r'"
  shows "intendedDistance r' = intendedDistance r" "adjustmentSpeed r' = adjustmentSpeed r"
    "sideSwitchSpeed r' = sideSwitchSpeed r" "shoulderSideDistance r' = shoulderSideDistance r"
    "currentSide r' = currentSide r" "cameraBase r' \<noteq> None"
proof -
  from assms have eq: "r'\<lparr>cameraBase := cameraBase r, cameraHolder := cameraHolder r\<rparr> = r"
    and live: "cameraBase r' \<noteq> None"
    by (simp_all add: repositioned_def)
  from arg_cong [OF eq, of intendedDistance] show "intendedDistance r' = intendedDistance r" by simp
  from arg_cong [OF eq, of adjustmentSpeed] show "adjustmentSpeed r' = adjustmentSpeed r" by simp
  from arg_cong [OF eq, of sideSwitchSpeed] show "sideSwitchSpeed r' = sideSwitchSpeed r" by simp
  from arg_cong [OF eq, of shoulderSideDistance]
  show "shoulderSideDistance r' = shoulderSideDistance r" by simp
  from arg_cong [OF eq, of currentSide] show "currentSide r' = currentSide r" by simp
  show "cameraBase r' \<noteq> None" by (rule live)
qed

lemma update_step:
  assumes "getNearestCollision cls r sc = Inr (PyNum od)" and "cameraBase r \<noteq> None"
  shows "\<exists>r'. update cls dt sc r = Inr r' \<and> repositioned r r' \<and>
           posY (cameraHolder r') =
             - (holderDistance r + (min (intendedDistance r) od - holderDistance r)
                                     * min (adjustmentSpeed r * dt) 1)"
proof -
  from assms(2) obtain b where b: "cameraBase r = Some b" by auto
  show ?thesis
    unfolding update_Inr [OF assms(1) b]
    by (simp add: repositioned_def holderDistance_def)
qed

lemma update_in_range:
  assumes "0 \<le> holderDistance r" "holderDistance r \<le> intendedDistance r"
    and "0 \<le> dt" "0 \<le> adjustmentSpeed r" "cameraBase r \<noteq> None"
    and "getNearestCollision cls r sc = Inr (PyNum od)" "0 \<le> od" "od \<le> intendedDistance r"
  shows "\<exists>r'. update cls dt sc r = Inr r' \<and> repositioned r r' \<and>
           0 \<le> holderDistance r' \<and> holderDistance r' \<le> intendedDistance r'"
proof -
  from update_step [OF assms(6,5), of dt]
  obtain r' where r': "update cls dt sc r = Inr r'" "repositioned r r'"
    and y: "posY (cameraHolder r') =
             - (holderDistance r + (min (intendedDistance r) od - holderDistance r)
                                     * min (adjustmentSpeed r * dt) 1)"
    by blast
  have k: "0 \<le> min (adjustmentSpeed r * dt) 1" "min (adjustmentSpeed r * dt) 1 \<le> 1"
    using assms(3,4) by simp_all
  have t: "0 \<le> min (intendedDistance r) od" "min (intendedDistance r) od \<le> intendedDistance r"
    using assms(1,2,7) by simp_all
  from blend_between [OF k assms(1,2) t]
  have "0 \<le> holderDistance r'" "holderDistance r' \<le> intendedDistance r"
    unfolding holderDistance_def [of r'] y by simp_all
  with r' repositioned_fields(1) [OF r'(2)] show ?thesis by simp
qed

lemma updates_in_range:
  assumes "cameraBase r \<noteq> None"
    and "0 \<le> holderDistance r" "holderDistance r \<le> intendedDistance r"
    and "0 \<le> adjustmentSpeed r"
    and "\<forall>(dt, sc) \<in> set ticks. 0 \<le> dt"
    and "\<forall>p \<in> set (probeResults cls ticks r).
           \<exists>od. p = Inr (PyNum od) \<and> 0 \<le> od \<and> od \<le> intendedDistance r"
  shows "\<exists>r2. updates cls ticks r = Inr r2 \<and> intendedDistance r2 = intendedDistance r \<and>
           0 \<le> holderDistance r2 \<and> holderDistance r2 \<le> intendedDistance r2"
  using assms
proof (induction ticks arbitrary: r)
  case Nil
  then show ?case by simp
next
  case (Cons tick ticks)
  obtain dt sc where tick: "tick = (dt, sc)" by (cases tick)
  from Cons.prems(5,6) tick
  obtain od where dt: "0 \<le> dt"
    and od: "getNearestCollision cls r sc = Inr (PyNum od)" "0 \<le> od" "od \<le> intendedDistance r"
    by auto
  from update_in_range [OF Cons.prems(2,3) dt Cons.prems(4,1) od]
  obtain r' where r': "update cls dt sc r = Inr r'" "repositioned r r'"
    "0 \<le> holderDistance r'" "holderDistance r' \<le> intendedDistance r'"
    by blast
  note f = repositioned_fields [OF r'(2)]
  have p: "\<forall>p \<in> set (probeResults cls ticks r').
           \<exists>od. p = Inr (PyNum od) \<and> 0 \<le> od \<and> od \<le> intendedDistance r'"
    using Cons.prems(6) tick r'(1) f(1) by simp
  have a: "0 \<le> adjustmentSpeed r'" using Cons.prems(4) f(2) by simp
  have t: "\<forall>(dt, sc) \<in> set ticks. 0 \<le> dt" using Cons.prems(5) by simp
  from Cons.IH [OF f(6) r'(3,4) a t p]
  obtain r2 where "updates cls ticks r' = Inr r2" "intendedDistance r2 = intendedDistance r'"
    "0 \<le> holderDistance r2" "holderDistance r2 \<le> intendedDistance r2"
    by blast
  then show ?case using r'(1) tick f(1) by simp
qed

text \<open>
  C1. For a rig whose probe returns the number \<open>obstacleDistance\<close>, a tick
  \<open>dt \<ge> 0\<close> and a smoothing rate \<open>adjustmentSpeed \<ge> 0\<close> (the specification's
  rigs have it positive), \<open>update\<close> completes and writes the holder's backward offset
  to \<open>-(currentDistance + (min(intendedDistance, obstacleDistance) - currentDistance) *
  clamp(adjustmentSpeed * dt, 0, 1))\<close>, where \<open>currentDistance\<close> is the absolute
  value of the offset at the start of the call.
\<close>

theorem update_holder_offset:
  assumes "getNearestCollision cls r sc = Inr (PyNum obstacleDistance)"
    and "cameraBase r \<noteq> None"
    and "0 \<le> dt" and "0 \<le> adjustmentSpeed r"
  shows "\<exists>r'. update cls dt sc r = Inr r' \<and>
           posY (cameraHolder r') =
             - (holderDistance r
                + (min (intendedDistance r) obstacleDistance - holderDistance r)
                    * clamp (adjustmentSpeed r * dt) 0 1)"
proof -
  from assms(2) obtain b where b: "cameraBase r = Some b" by auto
  have "0 \<le> adjustmentSpeed r * dt" using assms(3,4) by simp
  then have cl: "clamp (adjustmentSpeed r * dt) 0 1 = min (adjustmentSpeed r * dt) 1"
    by (rule clamp_nonneg)
  show ?thesis
    unfolding update_Inr [OF assms(1) b] cl holderDistance_def by simp
qed

theorem update_holder_offset_witness:
  "getNearestCollision SimpleThirdPersonCameraPandaCollision levelController wallScene
     = Inr (PyNum (13 / 10)) \<and>
   cameraBase levelController \<noteq> None \<and> (0::real) \<le> 1 / 60 \<and>
   0 \<le> adjustmentSpeed levelController \<and>
   (\<exists>r'. update SimpleThirdPersonCameraPandaCollision (1 / 60) wallScene levelController = Inr r' \<and>
         posY (cameraHolder r') = - (5 + (13 / 10 - 5) * (7 / 60)))"
proof -
  have h2: "cameraBase levelController \<noteq> None" by (simp add: example_rigs)
  have h3: "(0::real) \<le> 1 / 60" by simp
  have h4: "0 \<le> adjustmentSpeed levelController" by (simp add: example_rigs)
  have v: "holderDistance levelController = 5" "intendedDistance levelController = 5"
    "adjustmentSpeed levelController = 7"
    by (simp_all add: holderDistance_def example_rigs)
  from update_holder_offset [OF wallScene_probe h2 h3 h4] wallScene_probe h2 h4
  show ?thesis by (simp add: v clamp_def)
qed

text \<open>
  C5. In a completed \<open>update\<close>, with \<open>targetLateral = shoulderSideDistance *
  currentSide\<close>: if \<open>|targetLateral - currentLateral| < 0.001\<close> the anchor's lateral
  offset becomes exactly \<open>targetLateral\<close>, whatever \<open>dt\<close> and
  \<open>sideSwitchSpeed\<close> are; otherwise, for a non-negative \<open>sideSwitchSpeed * dt\<close>,
  it becomes \<open>currentLateral + (targetLateral - currentLateral) *
  clamp(sideSwitchSpeed * dt, 0, 1)\<close>.
\<close>

theorem update_lateral:
  assumes "getNearestCollision cls r sc = Inr (PyNum od)"
    and "cameraBase r = Some b"
  shows "\<exists>r' b'. update cls dt sc r = Inr r' \<and> cameraBase r' = Some b' \<and>
           (\<bar>shoulderSideDistance r * of_int (currentSide r) - posX b\<bar> < 0.001 \<longrightarrow>
              posX b' = shoulderSideDistance r * of_int (currentSide r)) \<and>
           (\<not> \<bar>shoulderSideDistance r * of_int (currentSide r) - posX b\<bar> < 0.001 \<and>
            0 \<le> sideSwitchSpeed r * dt \<longrightarrow>
              posX b' = posX b + (shoulderSideDistance r * of_int (currentSide r) - posX b)
                                  * clamp (sideSwitchSpeed r * dt) 0 1)"
  unfolding update_Inr [OF assms] by (simp add: clamp_nonneg)

text \<open>The examples' fields, without unfolding the rigs.\<close>

lemma levelController_base:
  "cameraBase levelController =
     Some \<lparr>node = CameraBaseNode, posX = 0, posY = 0, posZ = 2, pitch = 0\<rparr>"
  by (simp add: example_rigs)
lemma Player_base:
  "cameraBase Player_cameraController =
     Some \<lparr>node = CameraBaseNode, posX = 0, posY = 0, posZ = 2, pitch = - 5\<rparr>"
  by (simp add: example_rigs)
lemma levelController_init:
  "init SimpleThirdPersonCameraPandaCollision (Some 0.5) 0 5 0.5 2.0 7.0 10.0 (- 1)
     (Borrowed 0) (Borrowed 1) = Inr levelController"
  unfolding levelController_def Panda_init_def SIMPLE_THIRD_PERSON_CAMERA_SIDE_LEFT_def
  using Panda_init_Inr [unfolded Panda_init_def] by simp
lemma levelController_fields:
  "intendedDistance levelController = 5" "adjustmentSpeed levelController = 7"
  "sideSwitchSpeed levelController = 10" "shoulderSideDistance levelController = 1 / 2"
  "currentSide levelController = - 1" "holderDistance levelController = 5"
  "traverser levelController \<noteq> None" "collisionQueue levelController \<noteq> None"
  by (simp_all add: example_rigs holderDistance_def)

text \<open>
  The demo's controller, built on the left side with its anchor at lateral offset 0, moves
  a sixth of the way to \<open>-0.5\<close> in a tick of 1/60 s.
\<close>

theorem update_lateral_witness:
  "getNearestCollision SimpleThirdPersonCameraPandaCollision Player_cameraController openScene
     = Inr (PyNum 5) \<and>
   cameraBase Player_cameraController =
     Some \<lparr>node = CameraBaseNode, posX = 0, posY = 0, posZ = 2, pitch = - 5\<rparr> \<and>
   (\<exists>r' b'. update SimpleThirdPersonCameraPandaCollision (1 / 60) openScene Player_cameraController
              = Inr r' \<and>
            cameraBase r' = Some b' \<and> posX b' = - 1 / 12)"
proof -
  from update_lateral [OF openScene_probe Player_base, of "1 / 60"]
  obtain r' b' where u: "update SimpleThirdPersonCameraPandaCollision (1 / 60) openScene
                           Player_cameraController = Inr r'" "cameraBase r' = Some b'"
    and x: "posX b' = - 1 / 12"
    by (auto simp: example_rigs clamp_def)
  with openScene_probe Player_base show ?thesis by blast
qed

text \<open>
  C9. \<open>setCurrentSide(side)\<close> stores \<open>side\<close> in \<open>currentSide\<close> and changes
  nothing else: putting the old side back gives the rig as it was, so the anchor, its
  lateral offset, the holder and its distance are those before the call. The smoothing
  toward the new side is the next \<open>update\<close>'s: when that completes, the lateral
  offset it writes is the snap or blend step toward \<open>shoulderSideDistance * side\<close>
  from the offset the anchor had before \<open>setCurrentSide\<close>.
\<close>

theorem setCurrentSide_frame:
  "currentSide (setCurrentSide side r) = side \<and>
   (setCurrentSide side r)\<lparr>currentSide := currentSide r\<rparr> = r \<and>
   cameraBase (setCurrentSide side r) = cameraBase r \<and>
   lateralOffset (setCurrentSide side r) = lateralOffset r \<and>
   cameraHolder (setCurrentSide side r) = cameraHolder r \<and>
   holderDistance (setCurrentSide side r) = holderDistance r \<and>
   (getNearestCollision cls (setCurrentSide side r) sc = Inr (PyNum od) \<and>
    cameraBase r = Some b \<longrightarrow>
      (\<exists>r' b'. update cls dt sc (setCurrentSide side r) = Inr r' \<and> cameraBase r' = Some b' \<and>
         posX b' =
           (if \<bar>shoulderSideDistance r * of_int side - posX b\<bar> < 0.001
            then shoulderSideDistance r * of_int side
            else posX b + (shoulderSideDistance r * of_int side - posX b)
                            * min (sideSwitchSpeed r * dt) 1)))"
proof -
  have frame: "currentSide (setCurrentSide side r) = side"
    "(setCurrentSide side r)\<lparr>currentSide := currentSide r\<rparr> = r"
    "cameraBase (setCurrentSide side r) = cameraBase r"
    "lateralOffset (setCurrentSide side r) = lateralOffset r"
    "cameraHolder (setCurrentSide side r) = cameraHolder r"
    "holderDistance (setCurrentSide side r) = holderDistance r"
    "shoulderSideDistance (setCurrentSide side r) = shoulderSideDistance r"
    "sideSwitchSpeed (setCurrentSide side r) = sideSwitchSpeed r"
    by (simp_all add: setCurrentSide_def lateralOffset_def holderDistance_def)
  have next_tick: "\<exists>r' b'. update cls dt sc (setCurrentSide side r) = Inr r' \<and>
         cameraBase r' = Some b' \<and>
         posX b' =
           (if \<bar>shoulderSideDistance r * of_int side - posX b\<bar> < 0.001
            then shoulderSideDistance r * of_int side
            else posX b + (shoulderSideDistance r * of_int side - posX b)
                            * min (sideSwitchSpeed r * dt) 1)"
    if p: "getNearestCollision cls (setCurrentSide side r) sc = Inr (PyNum od)"
      and b: "cameraBase r = Some b"
  proof -
    from b frame(3) have b': "cameraBase (setCurrentSide side r) = Some b" by simp
    show ?thesis
      unfolding update_Inr [OF p b'] frame by simp
  qed
  from frame(1-6) next_tick show ?thesis by blast
qed

theorem setCurrentSide_frame_witness:
  "getNearestCollision SimpleThirdPersonCameraPandaCollision
     (setCurrentSide 1 levelController) openScene = Inr (PyNum 5) \<and>
   cameraBase levelController =
     Some \<lparr>node = CameraBaseNode, posX = 0, posY = 0, posZ = 2, pitch = 0\<rparr> \<and>
   lateralOffset (setCurrentSide 1 levelController) = 0 \<and>
   (\<exists>r' b'. update SimpleThirdPersonCameraPandaCollision (1 / 60) openScene
               (setCurrentSide 1 levelController) = Inr r' \<and>
            cameraBase r' = Some b' \<and> posX b' = 1 / 12)"
proof -
  have p: "getNearestCollision SimpleThirdPersonCameraPandaCollision
             (setCurrentSide 1 levelController) openScene = Inr (PyNum 5)"
    by (simp add: SimpleThirdPersonCameraPandaCollision_def Panda_getNearestCollision_def
        setCurrentSide_def example_rigs openScene_def)
  have l: "lateralOffset levelController = 0"
    by (simp add: lateralOffset_def levelController_base)
  from setCurrentSide_frame [of 1 levelController SimpleThirdPersonCameraPandaCollision
      openScene 5 "\<lparr>node = CameraBaseNode, posX = 0, posY = 0, posZ = 2, pitch = 0\<rparr>" "1 / 60"]
    p levelController_base
  have "lateralOffset (setCurrentSide 1 levelController) = lateralOffset levelController"
    and "\<exists>r' b'. update SimpleThirdPersonCameraPandaCollision (1 / 60) openScene
               (setCurrentSide 1 levelController) = Inr r' \<and>
            cameraBase r' = Some b' \<and> posX b' = 1 / 12"
    by (simp_all add: levelController_fields)
  with p levelController_base l show ?thesis by simp
qed

section \<open>A negative tick\<close>



section \<open>The base class's probe\<close>

text \<open>
  C2 (amended). On a base-class object \<open>getNearestCollision\<close> returns \<open>None\<close>
  and \<open>update\<close> raises \<open>TypeError\<close> at the comparison of \<open>targetY\<close>
  with it, for every rig, tick and scene; the distance target is \<open>intendedDistance\<close>
  for an object of a class whose probe returns \<open>intendedDistance\<close>, and
  \<open>update\<close> then completes while the anchor is there.
\<close>

theorem base_update_raises:
  "getNearestCollision SimpleThirdPersonCamera r sc = Inr PyNone \<and>
   update SimpleThirdPersonCamera dt sc r = Inl TypeError \<and>
   (getNearestCollision cls r' sc' = Inr (PyNum (intendedDistance r')) \<and>
    cameraBase r' \<noteq> None \<longrightarrow>
      (\<exists>r''. update cls dt' sc' r' = Inr r'' \<and>
            posY (cameraHolder r'') =
              - (holderDistance r' + (intendedDistance r' - holderDistance r')
                                       * min (adjustmentSpeed r' * dt') 1)))"
proof (intro conjI impI)
  show "getNearestCollision SimpleThirdPersonCamera r sc = Inr PyNone"
    by (simp add: SimpleThirdPersonCamera_def Base_getNearestCollision_def)
  then show "update SimpleThirdPersonCamera dt sc r = Inl TypeError"
    by (simp add: update_def Let_def)
next
  assume "getNearestCollision cls r' sc' = Inr (PyNum (intendedDistance r')) \<and>
    cameraBase r' \<noteq> None"
  then have p: "getNearestCollision cls r' sc' = Inr (PyNum (intendedDistance r'))"
    and b: "cameraBase r' \<noteq> None" by simp_all
  from update_step [OF p b, of dt']
  show "\<exists>r''. update cls dt' sc' r' = Inr r'' \<and>
            posY (cameraHolder r'') =
              - (holderDistance r' + (intendedDistance r' - holderDistance r')
                                       * min (adjustmentSpeed r' * dt') 1)"
    by auto
qed

text \<open>
  A base-class object built with the demo's parameters, and the demo's own controller,
  whose probe returns \<open>intendedDistance\<close> in a scene with nothing behind the owner.
\<close>

theorem base_update_raises_witness:
  "getNearestCollision SimpleThirdPersonCamera baseController openScene = Inr PyNone \<and>
   update SimpleThirdPersonCamera (1 / 60) openScene baseController = Inl TypeError \<and>
   getNearestCollision SimpleThirdPersonCameraPandaCollision Player_cameraController openScene
     = Inr (PyNum (intendedDistance Player_cameraController)) \<and>
   cameraBase Player_cameraController \<noteq> None \<and>
   (\<exists>r'. update SimpleThirdPersonCameraPandaCollision (1 / 60) openScene Player_cameraController
            = Inr r' \<and>
         posY (cameraHolder r') = - 5)"
proof -
  have i: "intendedDistance Player_cameraController = 5"
    "holderDistance Player_cameraController = 5"
    by (simp_all add: example_rigs holderDistance_def)
  have p: "getNearestCollision SimpleThirdPersonCameraPandaCollision Player_cameraController
             openScene = Inr (PyNum (intendedDistance Player_cameraController))"
    using openScene_probe i by simp
  have b: "cameraBase Player_cameraController \<noteq> None" by (simp add: Player_base)
  from base_update_raises
    [of baseController openScene "1 / 60" SimpleThirdPersonCameraPandaCollision
        Player_cameraController openScene "1 / 60"] p b
  show ?thesis by (simp add: i)
qed

text \<open>
  The statement without the amendment fails: \<open>update\<close> on a base-class object built
  with the demo's parameters does not complete.
\<close>

theorem base_update_counterexample:
  "update SimpleThirdPersonCamera (1 / 60) openScene baseController = Inl TypeError"
  by (simp add: update_def SimpleThirdPersonCamera_def Base_getNearestCollision_def Let_def)

section \<open>Sequences of ticks\<close>

lemma init_constructed:
  assumes "init cls cr t d s h a w side ow cam = Inr r0"
    and "setupCollision cls = Base_setupCollision \<or> setupCollision cls = Panda_setupCollision"
  shows "posY (cameraHolder r0) = - d" "intendedDistance r0 = d" "adjustmentSpeed r0 = a"
    "cameraBase r0 \<noteq> None"
  using assms
  by (auto simp: init_def Let_def Base_setupCollision_def Panda_setupCollision_def
      setCurrentSide_def attachNewNode_def split: option.splits sum.splits)

text \<open>
  In exact arithmetic the holder's distance stays in \<open>[0, intendedDistance]\<close>. If it
  is there, \<open>dt \<ge> 0\<close>, \<open>adjustmentSpeed \<ge> 0\<close> and the probe returns a number
  in \<open>[0, intendedDistance]\<close>, then \<open>update\<close> completes and the distance is
  there again. A rig built by the constructor (of either class, with
  \<open>intendedDistance \<ge> 0\<close>) has distance \<open>intendedDistance\<close>, and after any
  sequence of such ticks, each probe result of the run in range, its distance is in
  \<open>[0, intendedDistance]\<close>. With the engine's single-precision coordinates neither
  the constructed distance nor the bound is exact, and that is outside this model.
\<close>

lemma holder_distance_in_range:
  "(0 \<le> holderDistance r \<and> holderDistance r \<le> intendedDistance r \<and>
    0 \<le> dt \<and> 0 \<le> adjustmentSpeed r \<and> cameraBase r \<noteq> None \<and>
    getNearestCollision cls r sc = Inr (PyNum od) \<and> 0 \<le> od \<and> od \<le> intendedDistance r
    \<longrightarrow> (\<exists>r'. update cls dt sc r = Inr r' \<and>
              0 \<le> holderDistance r' \<and> holderDistance r' \<le> intendedDistance r'))
   \<and>
   (init cls cr t d s h a w side ow cam = Inr r0 \<and>
    (setupCollision cls = Base_setupCollision \<or> setupCollision cls = Panda_setupCollision) \<and>
    0 \<le> d \<and> 0 \<le> a \<and>
    (\<forall>(dt, sc) \<in> set ticks. 0 \<le> dt) \<and>
    (\<forall>p \<in> set (probeResults cls ticks r0). \<exists>od. p = Inr (PyNum od) \<and> 0 \<le> od \<and> od \<le> d)
    \<longrightarrow> holderDistance r0 = intendedDistance r0 \<and>
        (\<exists>r'. updates cls ticks r0 = Inr r' \<and>
              0 \<le> holderDistance r' \<and> holderDistance r' \<le> intendedDistance r'))"
proof (intro conjI impI)
  assume "0 \<le> holderDistance r \<and> holderDistance r \<le> intendedDistance r \<and>
    0 \<le> dt \<and> 0 \<le> adjustmentSpeed r \<and> cameraBase r \<noteq> None \<and>
    getNearestCollision cls r sc = Inr (PyNum od) \<and> 0 \<le> od \<and> od \<le> intendedDistance r"
  then have h: "0 \<le> holderDistance r" "holderDistance r \<le> intendedDistance r"
    "0 \<le> dt" "0 \<le> adjustmentSpeed r" "cameraBase r \<noteq> None"
    "getNearestCollision cls r sc = Inr (PyNum od)" "0 \<le> od" "od \<le> intendedDistance r"
    by simp_all
  from update_in_range [OF h]
  show "\<exists>r'. update cls dt sc r = Inr r' \<and>
              0 \<le> holderDistance r' \<and> holderDistance r' \<le> intendedDistance r'"
    by blast
next
  assume a: "init cls cr t d s h a w side ow cam = Inr r0 \<and>
    (setupCollision cls = Base_setupCollision \<or> setupCollision cls = Panda_setupCollision) \<and>
    0 \<le> d \<and> 0 \<le> a \<and>
    (\<forall>(dt, sc) \<in> set ticks. 0 \<le> dt) \<and>
    (\<forall>p \<in> set (probeResults cls ticks r0). \<exists>od. p = Inr (PyNum od) \<and> 0 \<le> od \<and> od \<le> d)"
  then have i: "init cls cr t d s h a w side ow cam = Inr r0"
    and c: "setupCollision cls = Base_setupCollision \<or> setupCollision cls = Panda_setupCollision"
    and d: "0 \<le> d" and sp: "0 \<le> a"
    and t: "\<forall>(dt, sc) \<in> set ticks. 0 \<le> dt"
    by simp_all
  note f = init_constructed [OF i c]
  from f(1,2) d have hd: "holderDistance r0 = intendedDistance r0"
    by (simp add: holderDistance_def)
  then show "holderDistance r0 = intendedDistance r0" .
  have p: "\<forall>p \<in> set (probeResults cls ticks r0).
             \<exists>od. p = Inr (PyNum od) \<and> 0 \<le> od \<and> od \<le> intendedDistance r0"
    using a f(2) by simp
  have "0 \<le> holderDistance r0" "holderDistance r0 \<le> intendedDistance r0"
    "0 \<le> adjustmentSpeed r0"
    using hd d sp f(2,3) by simp_all
  from updates_in_range [OF f(4) this t p]
  show "\<exists>r'. updates cls ticks r0 = Inr r' \<and>
              0 \<le> holderDistance r' \<and> holderDistance r' \<le> intendedDistance r'"
    by blast
qed

lemma holder_distance_in_range_witness:
  "(\<exists>r'. update SimpleThirdPersonCameraPandaCollision (1 / 60) wallScene levelController = Inr r' \<and>
         0 \<le> holderDistance r' \<and> holderDistance r' \<le> intendedDistance r') \<and>
   holderDistance levelController = intendedDistance levelController \<and>
   (\<exists>r'. updates SimpleThirdPersonCameraPandaCollision
           [(1 / 60, wallScene), (1 / 30, openScene)] levelController = Inr r' \<and>
         0 \<le> holderDistance r' \<and> holderDistance r' \<le> intendedDistance r')"
proof -
  have one: "0 \<le> holderDistance levelController \<and>
    holderDistance levelController \<le> intendedDistance levelController \<and>
    (0::real) \<le> 1 / 60 \<and> 0 \<le> adjustmentSpeed levelController \<and>
    cameraBase levelController \<noteq> None \<and>
    getNearestCollision SimpleThirdPersonCameraPandaCollision levelController wallScene
      = Inr (PyNum (13 / 10)) \<and>
    (0::real) \<le> 13 / 10 \<and> 13 / 10 \<le> intendedDistance levelController"
    using wallScene_probe by (simp add: holderDistance_def example_rigs)
  have p2: "getNearestCollision SimpleThirdPersonCameraPandaCollision r' openScene
              = Inr (PyNum (intendedDistance r'))"
    if "traverser r' \<noteq> None" "collisionQueue r' \<noteq> None" for r'
    using that
    by (auto simp: SimpleThirdPersonCameraPandaCollision_def Panda_getNearestCollision_def
        openScene_def)
  have f: "traverser levelController \<noteq> None" "collisionQueue levelController \<noteq> None"
    "intendedDistance levelController = 5"
    by (simp_all add: example_rigs)
  have pr: "probeResults SimpleThirdPersonCameraPandaCollision
              [(1 / 60, wallScene), (1 / 30, openScene)] levelController
            = [Inr (PyNum (13 / 10)), Inr (PyNum 5)]"
    by (simp add: wallScene_probe update_Inr [OF wallScene_probe levelController_base] p2 f
        split: sum.splits)
  have ticks: "\<forall>(dt, sc) \<in> set [(1 / 60 :: real, wallScene), (1 / 30, openScene)]. 0 \<le> dt"
    by simp
  have probes: "\<forall>p \<in> set (probeResults SimpleThirdPersonCameraPandaCollision
                   [(1 / 60, wallScene), (1 / 30, openScene)] levelController).
        \<exists>od. p = Inr (PyNum od) \<and> 0 \<le> od \<and> od \<le> 5"
    unfolding pr by (auto intro: exI [of _ "13 / 10"] exI [of _ 5])
  have cls: "setupCollision SimpleThirdPersonCameraPandaCollision = Base_setupCollision \<or>
     setupCollision SimpleThirdPersonCameraPandaCollision = Panda_setupCollision"
    by (simp add: SimpleThirdPersonCameraPandaCollision_def)
  have many: "init SimpleThirdPersonCameraPandaCollision (Some 0.5) 0 5 0.5 2.0 7.0 10.0 (- 1)
      (Borrowed 0) (Borrowed 1) = Inr levelController \<and>
    (setupCollision SimpleThirdPersonCameraPandaCollision = Base_setupCollision \<or>
     setupCollision SimpleThirdPersonCameraPandaCollision = Panda_setupCollision) \<and>
    (0::real) \<le> 5 \<and> (0::real) \<le> 7.0 \<and>
    (\<forall>(dt, sc) \<in> set [(1 / 60 :: real, wallScene), (1 / 30, openScene)]. 0 \<le> dt) \<and>
    (\<forall>p \<in> set (probeResults SimpleThirdPersonCameraPandaCollision
                   [(1 / 60, wallScene), (1 / 30, openScene)] levelController).
        \<exists>od. p = Inr (PyNum od) \<and> 0 \<le> od \<and> od \<le> 5)"
    using levelController_init ticks probes cls by simp
  from holder_distance_in_range
    [where r = levelController and dt = "1 / 60"
       and cls = SimpleThirdPersonCameraPandaCollision and sc = wallScene and od = "13 / 10"
       and cr = "Some 0.5" and t = 0 and d = 5 and s = "0.5" and h = "2.0" and a = "7.0" and w = "10.0"
       and side = "- 1" and ow = "Borrowed 0" and cam = "Borrowed 1" and ?r0.0 = levelController
       and ticks = "[(1 / 60, wallScene), (1 / 30, openScene)]"]
    one many
  show ?thesis by blast
qed

lemma probeResults_snoc:
  "probeResults cls (ticks @ [(dt, sc)]) r =
     probeResults cls ticks r @
       (case updates cls ticks r of Inl e \<Rightarrow> [] | Inr r1 \<Rightarrow> [getNearestCollision cls r1 sc])"
proof (induction ticks arbitrary: r)
  case Nil
  then show ?case by (simp split: sum.splits)
next
  case (Cons tick ticks)
  obtain dt' sc' where tick: "tick = (dt', sc')" by (cases tick)
  show ?case unfolding tick using Cons.IH by (simp split: sum.splits)
qed

lemma updates_constant_probe:
  assumes "cameraBase r \<noteq> None"
    and "\<forall>p \<in> set (probeResults cls (replicate n (dt, sc)) r). p = Inr (PyNum od)"
  shows "\<exists>r1. updates cls (replicate n (dt, sc)) r = Inr r1 \<and> cameraBase r1 \<noteq> None \<and>
           intendedDistance r1 = intendedDistance r \<and> adjustmentSpeed r1 = adjustmentSpeed r"
  using assms
proof (induction n arbitrary: r)
  case 0
  then show ?case by simp
next
  case (Suc n)
  from Suc.prems(2) have p: "getNearestCollision cls r sc = Inr (PyNum od)" by simp
  from update_step [OF p Suc.prems(1), of dt]
  obtain r' where r': "update cls dt sc r = Inr r'" "repositioned r r'" by blast
  note f = repositioned_fields [OF r'(2)]
  have "\<forall>p \<in> set (probeResults cls (replicate n (dt, sc)) r'). p = Inr (PyNum od)"
    using Suc.prems(2) r'(1) by simp
  from Suc.IH [OF f(6) this] r'(1) f(1,2) show ?case by simp
qed

lemma Panda_probe_cong:
  assumes "traverser r' = traverser r" "collisionQueue r' = collisionQueue r"
    "cameraBase r' = cameraBase r" "intendedDistance r' = intendedDistance r"
  shows "getNearestCollision SimpleThirdPersonCameraPandaCollision r' sc
           = getNearestCollision SimpleThirdPersonCameraPandaCollision r sc"
  by (simp add: SimpleThirdPersonCameraPandaCollision_def Panda_getNearestCollision_def assms
      cong: option.case_cong list.case_cong if_cong)

text \<open>
  In exact arithmetic the distance approaches a fixed target monotonically. With a
  constant tick \<open>dt > 0\<close>, \<open>adjustmentSpeed > 0\<close> and a probe that returns the
  same distance in every tick: in tick \<open>n + 1\<close>, for every \<open>n\<close>, the distance
  written is strictly nearer to \<open>targetDistance\<close> than the distance read when they
  differ, and is on the same side of it (or on it), whatever \<open>adjustmentSpeed * dt\<close>
  is; for a target distance \<open>\<ge> 0\<close> the distance written is the holder's distance
  that the next tick reads. In floating point a step can round back to the value it
  started from, or land one unit in the last place past the target; that is outside
  this model.
\<close>

lemma convergence_monotone:
  assumes "0 < dt" and "0 < adjustmentSpeed r" and "cameraBase r \<noteq> None"
    and "\<forall>p \<in> set (probeResults cls (replicate (Suc n) (dt, sc)) r). p = Inr (PyNum od)"
    and "targetDistance = min (intendedDistance r) od"
  shows "\<exists>r1 r2. updates cls (replicate n (dt, sc)) r = Inr r1 \<and> update cls dt sc r1 = Inr r2 \<and>
           (holderDistance r1 \<noteq> targetDistance \<longrightarrow>
              \<bar>- posY (cameraHolder r2) - targetDistance\<bar> < \<bar>holderDistance r1 - targetDistance\<bar>) \<and>
           (holderDistance r1 \<le> targetDistance \<longrightarrow> - posY (cameraHolder r2) \<le> targetDistance) \<and>
           (targetDistance \<le> holderDistance r1 \<longrightarrow> targetDistance \<le> - posY (cameraHolder r2)) \<and>
           (0 \<le> targetDistance \<longrightarrow> holderDistance r2 = - posY (cameraHolder r2))"
proof -
  have split: "replicate (Suc n) (dt, sc) = replicate n (dt, sc) @ [(dt, sc)]"
    by (simp add: replicate_append_same)
  from assms(4) have first: "\<forall>p \<in> set (probeResults cls (replicate n (dt, sc)) r). p = Inr (PyNum od)"
    unfolding split probeResults_snoc by simp
  from updates_constant_probe [OF assms(3) first]
  obtain r1 where r1: "updates cls (replicate n (dt, sc)) r = Inr r1" "cameraBase r1 \<noteq> None"
    "intendedDistance r1 = intendedDistance r" "adjustmentSpeed r1 = adjustmentSpeed r"
    by blast
  from assms(4) r1(1) have p: "getNearestCollision cls r1 sc = Inr (PyNum od)"
    unfolding split probeResults_snoc by simp
  define k where "k = min (adjustmentSpeed r * dt) 1"
  define c where "c = holderDistance r1"
  from update_step [OF p r1(2), of dt]
  obtain r2 where r2: "update cls dt sc r1 = Inr r2"
    and y: "posY (cameraHolder r2) = - (c + (targetDistance - c) * k)"
    unfolding r1(3,4) assms(5) k_def c_def by blast
  have written: "- posY (cameraHolder r2) = c + (targetDistance - c) * k"
    unfolding y by simp
  have k: "0 < k" "k \<le> 1" using assms(1,2) by (simp_all add: k_def)
  have c: "0 \<le> c" by (simp add: c_def holderDistance_def)
  have toward:
    "c \<noteq> targetDistance \<longrightarrow> \<bar>- posY (cameraHolder r2) - targetDistance\<bar> < \<bar>c - targetDistance\<bar>"
    unfolding written using blend_toward [OF k] by blast
  have side: "(c \<le> targetDistance \<longrightarrow> - posY (cameraHolder r2) \<le> targetDistance) \<and>
              (targetDistance \<le> c \<longrightarrow> targetDistance \<le> - posY (cameraHolder r2))"
    unfolding written using blend_same_side [OF k(2)] by blast
  have read: "0 \<le> targetDistance \<longrightarrow> holderDistance r2 = - posY (cameraHolder r2)"
  proof
    assume "0 \<le> targetDistance"
    then have "0 \<le> c + (targetDistance - c) * k"
      using blend_between [of k 0 c "max c targetDistance" targetDistance] k c by simp
    then show "holderDistance r2 = - posY (cameraHolder r2)"
      unfolding holderDistance_def [of r2] y by simp
  qed
  from r1(1) r2 toward side read show ?thesis unfolding c_def by blast
qed

lemma convergence_monotone_witness:
  "(0::real) < 1 / 60 \<and> 0 < adjustmentSpeed (setCurrentSide 0 levelController) \<and>
   cameraBase (setCurrentSide 0 levelController) \<noteq> None \<and>
   (\<exists>r1 r2. updates SimpleThirdPersonCameraPandaCollision [(1 / 60, wallScene)]
               (setCurrentSide 0 levelController) = Inr r1 \<and>
         update SimpleThirdPersonCameraPandaCollision (1 / 60) wallScene r1 = Inr r2 \<and>
         holderDistance r1 = 2741 / 600 \<and>
         \<bar>- posY (cameraHolder r2) - 13 / 10\<bar> < \<bar>holderDistance r1 - 13 / 10\<bar> \<and>
         13 / 10 \<le> - posY (cameraHolder r2) \<and>
         holderDistance r2 = - posY (cameraHolder r2))"
proof -
  let ?R = "setCurrentSide 0 levelController"
  have h1: "(0::real) < 1 / 60" by simp
  have h2: "0 < adjustmentSpeed ?R" by (simp add: setCurrentSide_def levelController_fields)
  have b: "cameraBase ?R = Some \<lparr>node = CameraBaseNode, posX = 0, posY = 0, posZ = 2, pitch = 0\<rparr>"
    by (simp add: setCurrentSide_def levelController_base)
  then have h3: "cameraBase ?R \<noteq> None" by simp
  have p0: "getNearestCollision SimpleThirdPersonCameraPandaCollision ?R wallScene
              = Inr (PyNum (13 / 10))"
    using Panda_probe_cong [of ?R levelController wallScene] wallScene_probe
    by (simp add: setCurrentSide_def)
  define R1 where "R1 = ?R\<lparr>cameraHolder := (cameraHolder ?R)\<lparr>posY := - (2741 / 600)\<rparr>\<rparr>"
  have u: "update SimpleThirdPersonCameraPandaCollision (1 / 60) wallScene ?R = Inr R1"
    unfolding update_Inr [OF p0 b] R1_def
    by (simp add: setCurrentSide_def levelController_fields levelController_base
        holderDistance_def [symmetric])
  have p1: "getNearestCollision SimpleThirdPersonCameraPandaCollision R1 wallScene
              = Inr (PyNum (13 / 10))"
    using Panda_probe_cong [of R1 ?R wallScene] p0 by (simp add: R1_def)
  have h4: "\<forall>p \<in> set (probeResults SimpleThirdPersonCameraPandaCollision
                       (replicate (Suc (Suc 0)) (1 / 60, wallScene)) ?R).
              p = Inr (PyNum (13 / 10))"
    by (simp add: p0 u p1 split: sum.splits)
  have h5: "(13 / 10 :: real) = min (intendedDistance ?R) (13 / 10)"
    by (simp add: setCurrentSide_def levelController_fields)
  from convergence_monotone [OF h1 h2 h3 h4 h5]
  obtain r1 r2 where
    a: "updates SimpleThirdPersonCameraPandaCollision (replicate (Suc 0) (1 / 60, wallScene)) ?R
          = Inr r1"
      "update SimpleThirdPersonCameraPandaCollision (1 / 60) wallScene r1 = Inr r2"
    and toward: "holderDistance r1 \<noteq> 13 / 10 \<longrightarrow>
           \<bar>- posY (cameraHolder r2) - 13 / 10\<bar> < \<bar>holderDistance r1 - 13 / 10\<bar>"
    and side: "13 / 10 \<le> holderDistance r1 \<longrightarrow> 13 / 10 \<le> - posY (cameraHolder r2)"
    and read: "(0::real) \<le> 13 / 10 \<longrightarrow> holderDistance r2 = - posY (cameraHolder r2)"
    by blast
  from a(1) u have r1: "r1 = R1" by simp
  have d: "holderDistance R1 = 2741 / 600" by (simp add: R1_def holderDistance_def)
  have u1: "updates SimpleThirdPersonCameraPandaCollision [(1 / 60, wallScene)] ?R = Inr R1"
    using u by simp
  from toward side read d r1
  have t: "\<bar>- posY (cameraHolder r2) - 13 / 10\<bar> < \<bar>holderDistance R1 - 13 / 10\<bar>"
    "13 / 10 \<le> - posY (cameraHolder r2)" "holderDistance r2 = - posY (cameraHolder r2)"
    by simp_all
  from h1 h2 h3 u1 a(2) [unfolded r1] d t show ?thesis by blast
qed

section \<open>The shoulder side\<close>

lemma update_currentSide: "update cls dt sc r = Inr r' \<Longrightarrow> currentSide r' = currentSide r"
  by (auto simp: update_def Let_def split: sum.splits pyval.splits option.splits if_splits)

lemma calls_currentSide:
  "calls cls cs r = Inr r' \<Longrightarrow> currentSide r' = last (currentSide r # sidesPassed cs)"
proof (induction cls cs r rule: calls.induct)
  case (1 cls self)
  then show ?case by simp
next
  case (2 cls side cs self)
  then show ?case by (simp add: setCurrentSide_def)
next
  case (3 cls dt sceneRoot cs self)
  then show ?case by (auto simp: update_currentSide split: sum.splits)
qed

lemma init_currentSide:
  "init cls cr t d s h a w side ow cam = Inr r0 \<Longrightarrow> currentSide r0 = side"
  by (auto simp: init_def Let_def setCurrentSide_def split: sum.splits)

text \<open>
  C8 (amended). After construction and any completed sequence of \<open>setCurrentSide\<close>
  and \<open>update\<close> calls, \<open>currentSide\<close> is the last value passed to
  \<open>setCurrentSide\<close>, or \<open>initialShoulderSide\<close> if there was none; it is one of
  the three enumerated values when \<open>initialShoulderSide\<close> and every value passed
  are.
\<close>

theorem currentSide_follows_calls:
  assumes "init cls cr t d s h a w side ow cam = Inr r0" and "calls cls cs r0 = Inr r'"
  shows "currentSide r' = last (side # sidesPassed cs) \<and>
         (set (side # sidesPassed cs)
            \<subseteq> {SIMPLE_THIRD_PERSON_CAMERA_SIDE_LEFT, SIMPLE_THIRD_PERSON_CAMERA_SIDE_CENTRE,
                SIMPLE_THIRD_PERSON_CAMERA_SIDE_CENTER, SIMPLE_THIRD_PERSON_CAMERA_SIDE_RIGHT} \<longrightarrow>
          currentSide r'
            \<in> {SIMPLE_THIRD_PERSON_CAMERA_SIDE_LEFT, SIMPLE_THIRD_PERSON_CAMERA_SIDE_CENTRE,
                SIMPLE_THIRD_PERSON_CAMERA_SIDE_CENTER, SIMPLE_THIRD_PERSON_CAMERA_SIDE_RIGHT})"
proof -
  from calls_currentSide [OF assms(2)] init_currentSide [OF assms(1)]
  have e: "currentSide r' = last (side # sidesPassed cs)" by simp
  have "last (side # sidesPassed cs) \<in> set (side # sidesPassed cs)" by (rule last_in_set) simp
  with e show ?thesis by auto
qed

theorem currentSide_follows_calls_witness:
  "init SimpleThirdPersonCameraPandaCollision (Some 0.5) 0 5 0.5 2.0 7.0 10.0 (- 1)
     (Borrowed 0) (Borrowed 1) = Inr levelController \<and>
   calls SimpleThirdPersonCameraPandaCollision
     [SetCurrentSide 1, Update (1 / 60) openScene, SetCurrentSide 0] levelController
     = Inr (projr (calls SimpleThirdPersonCameraPandaCollision
                     [SetCurrentSide 1, Update (1 / 60) openScene, SetCurrentSide 0]
                     levelController)) \<and>
   currentSide (projr (calls SimpleThirdPersonCameraPandaCollision
                         [SetCurrentSide 1, Update (1 / 60) openScene, SetCurrentSide 0]
                         levelController)) = 0 \<and>
   currentSide (projr (calls SimpleThirdPersonCameraPandaCollision
                         [SetCurrentSide 1, Update (1 / 60) openScene, SetCurrentSide 0]
                         levelController))
     \<in> {SIMPLE_THIRD_PERSON_CAMERA_SIDE_LEFT, SIMPLE_THIRD_PERSON_CAMERA_SIDE_CENTRE,
         SIMPLE_THIRD_PERSON_CAMERA_SIDE_CENTER, SIMPLE_THIRD_PERSON_CAMERA_SIDE_RIGHT}"
proof -
  let ?cs = "[SetCurrentSide 1, Update (1 / 60) openScene, SetCurrentSide 0]"
  let ?run = "calls SimpleThirdPersonCameraPandaCollision ?cs levelController"
  have p: "getNearestCollision SimpleThirdPersonCameraPandaCollision
             (setCurrentSide 1 levelController) openScene = Inr (PyNum 5)"
    by (simp add: SimpleThirdPersonCameraPandaCollision_def Panda_getNearestCollision_def
        setCurrentSide_def example_rigs openScene_def)
  have b: "cameraBase (setCurrentSide 1 levelController) =
             Some \<lparr>node = CameraBaseNode, posX = 0, posY = 0, posZ = 2, pitch = 0\<rparr>"
    by (simp add: setCurrentSide_def levelController_base)
  have "\<exists>x. ?run = Inr x" by (simp add: update_Inr [OF p b])
  then have run: "?run = Inr (projr ?run)" by auto
  have sides: "set ((- 1) # sidesPassed ?cs)
            \<subseteq> {SIMPLE_THIRD_PERSON_CAMERA_SIDE_LEFT, SIMPLE_THIRD_PERSON_CAMERA_SIDE_CENTRE,
                SIMPLE_THIRD_PERSON_CAMERA_SIDE_CENTER, SIMPLE_THIRD_PERSON_CAMERA_SIDE_RIGHT}"
    by (simp add: SIMPLE_THIRD_PERSON_CAMERA_SIDE_LEFT_def
        SIMPLE_THIRD_PERSON_CAMERA_SIDE_CENTRE_def SIMPLE_THIRD_PERSON_CAMERA_SIDE_CENTER_def
        SIMPLE_THIRD_PERSON_CAMERA_SIDE_RIGHT_def)
  from currentSide_follows_calls [OF levelController_init run] sides
  have "currentSide (projr ?run) = 0"
    and "currentSide (projr ?run)
     \<in> {SIMPLE_THIRD_PERSON_CAMERA_SIDE_LEFT, SIMPLE_THIRD_PERSON_CAMERA_SIDE_CENTRE,
         SIMPLE_THIRD_PERSON_CAMERA_SIDE_CENTER, SIMPLE_THIRD_PERSON_CAMERA_SIDE_RIGHT}"
    by simp_all
  with levelController_init run show ?thesis by blast
qed

text \<open>
  The statement without the amendment fails: \<open>setCurrentSide(2)\<close> on the demo's
  controller stores 2.
\<close>

theorem setCurrentSide_counterexample:
  "currentSide (setCurrentSide 2 Player_cameraController)
     \<notin> {SIMPLE_THIRD_PERSON_CAMERA_SIDE_LEFT, SIMPLE_THIRD_PERSON_CAMERA_SIDE_CENTRE,
         SIMPLE_THIRD_PERSON_CAMERA_SIDE_CENTER, SIMPLE_THIRD_PERSON_CAMERA_SIDE_RIGHT}"
  by (simp add: setCurrentSide_def SIMPLE_THIRD_PERSON_CAMERA_SIDE_LEFT_def
      SIMPLE_THIRD_PERSON_CAMERA_SIDE_CENTRE_def SIMPLE_THIRD_PERSON_CAMERA_SIDE_CENTER_def
      SIMPLE_THIRD_PERSON_CAMERA_SIDE_RIGHT_def)

section \<open>Teardown\<close>

text \<open>
  C7. \<open>cleanup\<close> completes, and a second \<open>cleanup\<close> returns the rig the first
  one left, with no further call to the engine: on a base-class object always, on an
  object of the subclass when its collider, if it has one, comes with its traverser and
  its collider node is unset without it (as after construction and after
  \<open>cleanup\<close>). After the first call the camera, owner and anchor references are
  \<open>None\<close>, and so are the subclass's collision objects; the calls it made are
  \<open>detachNode\<close> on the camera, \<open>removeCollider\<close> and \<open>removeNode\<close> on the
  collider, \<open>removeNode\<close> on the anchor, each once and only for a reference that was
  set. For a freshly built controller these are four calls, none of which removes the
  borrowed camera.
\<close>

theorem cleanup_idempotent:
  "(\<exists>r'. cleanup SimpleThirdPersonCamera r = Inr r' \<and>
         cleanup SimpleThirdPersonCamera r' = Inr r' \<and>
         camera r' = None \<and> ownerNodePath r' = None \<and> cameraBase r' = None \<and>
         engineCalls r' = engineCalls r
            @ (case camera r of Some c \<Rightarrow> [DetachNode c] | None \<Rightarrow> [])
            @ (case cameraBase r of Some b \<Rightarrow> [RemoveNode (node b)] | None \<Rightarrow> []))
   \<and>
   ((collider r \<noteq> None \<longrightarrow> traverser r \<noteq> None) \<and>
    (collider r = None \<longrightarrow> colliderNode r = None) \<longrightarrow>
    (\<exists>r'. cleanup SimpleThirdPersonCameraPandaCollision r = Inr r' \<and>
          cleanup SimpleThirdPersonCameraPandaCollision r' = Inr r' \<and>
          camera r' = None \<and> ownerNodePath r' = None \<and> cameraBase r' = None \<and>
          collider r' = None \<and> colliderNode r' = None \<and>
          traverser r' = None \<and> collisionQueue r' = None \<and>
          engineCalls r' = engineCalls r
            @ (case camera r of Some c \<Rightarrow> [DetachNode c] | None \<Rightarrow> [])
            @ (case collider r of
                 Some c \<Rightarrow> [RemoveCollider (node c), RemoveNode (node c)] | None \<Rightarrow> [])
            @ (case cameraBase r of Some b \<Rightarrow> [RemoveNode (node b)] | None \<Rightarrow> [])))
   \<and>
   (\<exists>r0 r'. Panda_init t d s h a w side ow (Borrowed k) cr = Inr r0 \<and>
        cleanup SimpleThirdPersonCameraPandaCollision r0 = Inr r' \<and>
        cleanup SimpleThirdPersonCameraPandaCollision r' = Inr r' \<and>
        engineCalls r' = [DetachNode (Borrowed k), RemoveCollider CameraColliderNode,
                          RemoveNode CameraColliderNode, RemoveNode CameraBaseNode] \<and>
        RemoveNode (Borrowed k) \<notin> set (engineCalls r'))"
proof (intro conjI impI)
  show "\<exists>r'. cleanup SimpleThirdPersonCamera r = Inr r' \<and>
         cleanup SimpleThirdPersonCamera r' = Inr r' \<and>
         camera r' = None \<and> ownerNodePath r' = None \<and> cameraBase r' = None \<and>
         engineCalls r' = engineCalls r
            @ (case camera r of Some c \<Rightarrow> [DetachNode c] | None \<Rightarrow> [])
            @ (case cameraBase r of Some b \<Rightarrow> [RemoveNode (node b)] | None \<Rightarrow> [])"
    by (simp add: cleanup_def SimpleThirdPersonCamera_def Base_cleanupCollision_def Let_def
        split: option.splits)
next
  assume "(collider r \<noteq> None \<longrightarrow> traverser r \<noteq> None) \<and>
    (collider r = None \<longrightarrow> colliderNode r = None)"
  then show "\<exists>r'. cleanup SimpleThirdPersonCameraPandaCollision r = Inr r' \<and>
          cleanup SimpleThirdPersonCameraPandaCollision r' = Inr r' \<and>
          camera r' = None \<and> ownerNodePath r' = None \<and> cameraBase r' = None \<and>
          collider r' = None \<and> colliderNode r' = None \<and>
          traverser r' = None \<and> collisionQueue r' = None \<and>
          engineCalls r' = engineCalls r
            @ (case camera r of Some c \<Rightarrow> [DetachNode c] | None \<Rightarrow> [])
            @ (case collider r of
                 Some c \<Rightarrow> [RemoveCollider (node c), RemoveNode (node c)] | None \<Rightarrow> [])
            @ (case cameraBase r of Some b \<Rightarrow> [RemoveNode (node b)] | None \<Rightarrow> [])"
    by (auto simp: cleanup_def SimpleThirdPersonCameraPandaCollision_def
        Panda_cleanupCollision_def Let_def split: option.splits)
next
  show "\<exists>r0 r'. Panda_init t d s h a w side ow (Borrowed k) cr = Inr r0 \<and>
        cleanup SimpleThirdPersonCameraPandaCollision r0 = Inr r' \<and>
        cleanup SimpleThirdPersonCameraPandaCollision r' = Inr r' \<and>
        engineCalls r' = [DetachNode (Borrowed k), RemoveCollider CameraColliderNode,
                          RemoveNode CameraColliderNode, RemoveNode CameraBaseNode] \<and>
        RemoveNode (Borrowed k) \<notin> set (engineCalls r')"
    by (simp add: Panda_init_Inr cleanup_def SimpleThirdPersonCameraPandaCollision_def
        Panda_cleanupCollision_def Let_def)
qed

theorem cleanup_idempotent_witness:
  "(\<exists>r'. cleanup SimpleThirdPersonCamera baseController = Inr r' \<and>
         cleanup SimpleThirdPersonCamera r' = Inr r' \<and>
         camera r' = None \<and> ownerNodePath r' = None \<and> cameraBase r' = None \<and>
         engineCalls r' = [DetachNode (Borrowed 1), RemoveNode CameraBaseNode]) \<and>
   collider Player_cameraController \<noteq> None \<and> traverser Player_cameraController \<noteq> None \<and>
   (\<exists>r'. cleanup SimpleThirdPersonCameraPandaCollision Player_cameraController = Inr r' \<and>
         cleanup SimpleThirdPersonCameraPandaCollision r' = Inr r' \<and>
         camera r' = None \<and> ownerNodePath r' = None \<and> cameraBase r' = None \<and>
         collider r' = None \<and> colliderNode r' = None \<and>
         traverser r' = None \<and> collisionQueue r' = None \<and>
         engineCalls r' = [DetachNode (Borrowed 1), RemoveCollider CameraColliderNode,
                           RemoveNode CameraColliderNode, RemoveNode CameraBaseNode])"
proof -
  have c: "collider Player_cameraController \<noteq> None" "traverser Player_cameraController \<noteq> None"
    by (simp_all add: example_rigs)
  then have h: "(collider Player_cameraController \<noteq> None \<longrightarrow>
                   traverser Player_cameraController \<noteq> None) \<and>
                (collider Player_cameraController = None \<longrightarrow>
                   colliderNode Player_cameraController = None)"
    by blast
  have f: "engineCalls baseController = []" "camera baseController = Some (Borrowed 1)"
    "cameraBase baseController =
       Some \<lparr>node = CameraBaseNode, posX = 0, posY = 0, posZ = 2, pitch = - 5\<rparr>"
    "engineCalls Player_cameraController = []" "camera Player_cameraController = Some (Borrowed 1)"
    "collider Player_cameraController =
       Some \<lparr>node = CameraColliderNode, posX = 0, posY = 0, posZ = 0, pitch = 0\<rparr>"
    by (simp_all add: example_rigs)
  from cleanup_idempotent [of baseController, THEN conjunct1]
  have one: "\<exists>r'. cleanup SimpleThirdPersonCamera baseController = Inr r' \<and>
         cleanup SimpleThirdPersonCamera r' = Inr r' \<and>
         camera r' = None \<and> ownerNodePath r' = None \<and> cameraBase r' = None \<and>
         engineCalls r' = [DetachNode (Borrowed 1), RemoveNode CameraBaseNode]"
    by (simp add: f)
  from cleanup_idempotent [of Player_cameraController, THEN conjunct2, THEN conjunct1] h
  have two: "\<exists>r'. cleanup SimpleThirdPersonCameraPandaCollision Player_cameraController = Inr r' \<and>
         cleanup SimpleThirdPersonCameraPandaCollision r' = Inr r' \<and>
         camera r' = None \<and> ownerNodePath r' = None \<and> cameraBase r' = None \<and>
         collider r' = None \<and> colliderNode r' = None \<and>
         traverser r' = None \<and> collisionQueue r' = None \<and>
         engineCalls r' = [DetachNode (Borrowed 1), RemoveCollider CameraColliderNode,
                           RemoveNode CameraColliderNode, RemoveNode CameraBaseNode]"
    by (simp add: f Player_base)
  from one c two show ?thesis by blast
qed

section \<open>The four-segment probe\<close>

lemma sortEntries_first:
  assumes "sortEntries es = e # rest"
  shows "e \<in> set es" "\<forall>x \<in> set es. entryKey e \<le> entryKey x"
proof -
  have s: "set (sortEntries es) = set es" by (simp add: sortEntries_def)
  with assms show "e \<in> set es" by auto
  have "sorted (map entryKey (sortEntries es))" by (simp add: sortEntries_def)
  with assms have "\<forall>x \<in> set rest. entryKey e \<le> entryKey x" by simp
  with s assms show "\<forall>x \<in> set es. entryKey e \<le> entryKey x" by auto
qed

lemma vlength_nonneg: "0 \<le> vlength v"
  by (cases v) (simp add: vlength_def)

lemma Panda_probe_value:
  assumes "traverser r \<noteq> None" and "collisionQueue r \<noteq> None" and "cameraBase r = Some base"
  shows "getNearestCollision SimpleThirdPersonCameraPandaCollision r sc =
           Inr (PyNum (case sortEntries (hits sc) of
                         [] \<Rightarrow> intendedDistance r
                       | e # rest \<Rightarrow> anchorDistance base sc e))"
proof (cases "sortEntries (hits sc)")
  case Nil
  then have "hits sc = []"
    by (metis length_sort list.size(3) length_0_conv sortEntries_def)
  with assms Nil show ?thesis
    by (auto simp: SimpleThirdPersonCameraPandaCollision_def Panda_getNearestCollision_def)
next
  case (Cons e rest)
  then have "hits sc \<noteq> []" by (auto simp: sortEntries_def)
  with assms Cons show ?thesis
    by (auto simp: SimpleThirdPersonCameraPandaCollision_def Panda_getNearestCollision_def
        anchorDistance_def Let_def)
qed

text \<open>
  A node's placement keeps distances, so with an unscaled owner the distance from the
  anchor to a surface point is the length of the point in the anchor's frame.
\<close>

lemma toParent_distance:
  "vlength (vsub (toParent np p) (toParent np q)) = vlength (vsub p q)"
proof -
  obtain x y z where p: "p = (x, y, z)" by (cases p)
  obtain x' y' z' where q: "q = (x', y', z')" by (cases q)
  define c where "c = cos (pitch np * pi / 180)"
  define s where "s = sin (pitch np * pi / 180)"
  have cs: "c * c + s * s = 1"
    unfolding c_def s_def using sin_cos_squared_add2 [of "pitch np * pi / 180"]
    by (simp add: power2_eq_square)
  have "((y - y') * c - (z - z') * s) * ((y - y') * c - (z - z') * s)
        + ((y - y') * s + (z - z') * c) * ((y - y') * s + (z - z') * c)
        = ((y - y') * (y - y') + (z - z') * (z - z')) * (c * c + s * s)"
    by (simp add: algebra_simps)
  also have "\<dots> = (y - y') * (y - y') + (z - z') * (z - z')" by (simp add: cs)
  finally have e: "((y - y') * c - (z - z') * s) * ((y - y') * c - (z - z') * s)
        + ((y - y') * s + (z - z') * c) * ((y - y') * s + (z - z') * c)
        = (y - y') * (y - y') + (z - z') * (z - z')" .
  have d: "vsub (toParent np p) (toParent np q)
         = (x - x', (y - y') * c - (z - z') * s, (y - y') * s + (z - z') * c)"
    by (simp add: p q toParent_def vsub_def c_def s_def algebra_simps)
  show ?thesis
    unfolding d unfolding p q vsub_def vlength_def using e by (simp add: add.assoc)
qed

lemma anchorDistance_local:
  assumes "rigid (ownerToScene sc)"
  shows "anchorDistance base sc e = vlength (localSurfacePoint e)"
proof -
  have o: "(posX base, posY base, posZ base) = toParent base (0, 0, 0)"
    by (simp add: toParent_def)
  from assms have r: "vlength (vsub (ownerToScene sc p) (ownerToScene sc q)) = vlength (vsub p q)"
    for p q
    unfolding rigid_def by blast
  have "anchorDistance base sc e
          = vlength (vsub (toParent base (0, 0, 0)) (toParent base (localSurfacePoint e)))"
    unfolding anchorDistance_def getPos_def getSurfacePoint_def o by (rule r)
  also have "\<dots> = vlength (vsub (0, 0, 0) (localSurfacePoint e))" by (rule toParent_distance)
  also have "\<dots> = vlength (localSurfacePoint e)"
    by (cases "localSurfacePoint e") (simp add: vsub_def vlength_def)
  finally show ?thesis .
qed

text \<open>
  On the four segments, for \<open>0 \<le> colliderRadius \<le> intendedDistance\<close>: the engine's
  key of an intersection is how far along its segment it lies, and its distance from the
  anchor grows with that key, the same way on each segment.
\<close>

lemma segment_hit:
  assumes "fromSolid e \<in> set (fourSegments cr d)" and "0 \<le> fraction e"
    and "0 \<le> cr" and "cr \<le> d"
  shows "entryKey e = fraction e * (d - cr)"
    and "vlength (localSurfacePoint e)
           = sqrt (cr * cr + (cr + entryKey e) * (cr + entryKey e))"
proof -
  define k where "k = fraction e * (d - cr)"
  have k: "0 \<le> k" using assms by (simp add: k_def)
  from assms(1) obtain x0 z0 where
    a: "pointA (fromSolid e) = (x0, - cr, z0)" and b: "pointB (fromSolid e) = (x0, - d, z0)"
    and xz: "x0 * x0 + z0 * z0 = cr * cr"
    by (auto simp: fourSegments_def CollisionSegment_def)
  have l: "localSurfacePoint e = (x0, - (cr + k), z0)"
    by (simp add: localSurfacePoint_def a b k_def algebra_simps)
  have "vsub (localSurfacePoint e) (pointA (fromSolid e)) = (0, - k, 0)"
    unfolding l a by (simp add: vsub_def)
  then have "entryKey e = \<bar>k\<bar>" by (simp add: entryKey_def vlength_def)
  with k have key: "entryKey e = k" by simp
  then show "entryKey e = fraction e * (d - cr)" by (simp add: k_def)
  have "x0 * x0 + (- (cr + k)) * (- (cr + k)) + z0 * z0
          = (x0 * x0 + z0 * z0) + (cr + k) * (cr + k)"
    by (simp add: algebra_simps)
  also have "\<dots> = cr * cr + (cr + k) * (cr + k)" by (simp only: xz)
  finally have "vlength (x0, - (cr + k), z0) = sqrt (cr * cr + (cr + k) * (cr + k))"
    by (simp only: vlength_def prod.case)
  then show "vlength (localSurfacePoint e)
           = sqrt (cr * cr + (cr + entryKey e) * (cr + entryKey e))"
    unfolding l key .
qed

lemma sqrt_sum_mono:
  fixes c s s' :: real
  assumes "0 \<le> c" "0 \<le> s" "s \<le> s'"
  shows "sqrt (c * c + (c + s) * (c + s)) \<le> sqrt (c * c + (c + s') * (c + s'))"
proof -
  have "(c + s) * (c + s) \<le> (c + s') * (c + s')"
    using assms by (intro mult_mono) simp_all
  then show ?thesis by simp
qed

text \<open>
  The constructor of the subclass leaves the collision objects set up, and \<open>update\<close>
  keeps them so.
\<close>

lemma collisionSetUp_fields:
  assumes "collisionSetUp r" and "colliderRadius r = Some cr"
  shows "traverser r \<noteq> None" "collisionQueue r \<noteq> None"
    "\<exists>cn. colliderNode r = Some cn \<and> solids cn = fourSegments cr (intendedDistance r)"
  using assms by (auto simp: collisionSetUp_def split: option.splits)

lemma init_collisionSetUp:
  "Panda_init t d s h a w side ow cam cr = Inr r0 \<Longrightarrow>
     collisionSetUp r0 \<and> colliderRadius r0 = Some cr \<and> intendedDistance r0 = d"
  unfolding Panda_init_Inr by (auto simp: collisionSetUp_def fourSegments_def)

lemma update_collisionSetUp:
  assumes "update cls dt sc r = Inr r'" and "collisionSetUp r"
  shows "collisionSetUp r' \<and> colliderRadius r' = colliderRadius r \<and>
         intendedDistance r' = intendedDistance r"
  using assms
  by (auto simp: update_def Let_def collisionSetUp_def
      split: sum.splits pyval.splits option.splits if_splits)

text \<open>
  C6 (amended). On a set-up rig with \<open>0 \<le> colliderRadius \<le> intendedDistance\<close>, for
  every scene whose intersections lie on the rig's four segments, the owner unscaled,
  the four-segment probe returns a non-negative number: \<open>intendedDistance\<close> when the
  traversal found no intersection, and otherwise the minimum, over all recorded
  intersections, of the distance from the anchor position to the intersection's surface
  point. The number is not bounded by \<open>intendedDistance\<close>.
\<close>

theorem nearest_collision_distance:
  assumes "collisionSetUp r" and "cameraBase r = Some base"
    and "colliderRadius r = Some cr" and "0 \<le> cr" and "cr \<le> intendedDistance r"
    and "onSegments r sc" and "rigid (ownerToScene sc)"
  shows "\<exists>d. getNearestCollision SimpleThirdPersonCameraPandaCollision r sc = Inr (PyNum d) \<and>
           0 \<le> d \<and>
           (hits sc = [] \<longrightarrow> d = intendedDistance r) \<and>
           (hits sc \<noteq> [] \<longrightarrow> d = Min (anchorDistance base sc ` set (hits sc)))"
proof (cases "sortEntries (hits sc)")
  case Nil
  then have "hits sc = []"
    by (metis length_sort list.size(3) length_0_conv sortEntries_def)
  with Panda_probe_value [OF collisionSetUp_fields(1,2) [OF assms(1,3)] assms(2), of sc] Nil
    assms(4,5)
  show ?thesis by simp
next
  case (Cons e rest)
  note first = sortEntries_first [OF Cons]
  from collisionSetUp_fields(3) [OF assms(1,3)] assms(6)
  have on: "fromSolid x \<in> set (fourSegments cr (intendedDistance r))" "0 \<le> fraction x"
    if "x \<in> set (hits sc)" for x
    using that by (auto simp: onSegments_def list_all_iff)
  have dist: "anchorDistance base sc x
                = sqrt (cr * cr + (cr + entryKey x) * (cr + entryKey x))"
    and key: "0 \<le> entryKey x"
    if "x \<in> set (hits sc)" for x
  proof -
    from segment_hit [OF on [OF that] assms(4,5)] anchorDistance_local [OF assms(7)]
    show "anchorDistance base sc x
                = sqrt (cr * cr + (cr + entryKey x) * (cr + entryKey x))"
      by simp
    from segment_hit(1) [OF on [OF that] assms(4,5)] on(2) [OF that] assms(5)
    show "0 \<le> entryKey x" by simp
  qed
  have least: "anchorDistance base sc e \<le> anchorDistance base sc x"
    if "x \<in> set (hits sc)" for x
    unfolding dist [OF that] dist [OF first(1)]
    using assms(4) key [OF first(1)] first(2) that by (intro sqrt_sum_mono) auto
  have min: "Min (anchorDistance base sc ` set (hits sc)) = anchorDistance base sc e"
  proof (rule Min_eqI)
    show "finite (anchorDistance base sc ` set (hits sc))" by simp
    show "anchorDistance base sc e \<in> anchorDistance base sc ` set (hits sc)"
      using first(1) by simp
    fix y assume "y \<in> anchorDistance base sc ` set (hits sc)"
    then show "anchorDistance base sc e \<le> y" using least by auto
  qed
  have nn: "0 \<le> anchorDistance base sc e" by (simp add: anchorDistance_def vlength_nonneg)
  have ne: "hits sc \<noteq> []" using Cons by (auto simp: sortEntries_def)
  from Panda_probe_value [OF collisionSetUp_fields(1,2) [OF assms(1,3)] assms(2), of sc] Cons
  have "getNearestCollision SimpleThirdPersonCameraPandaCollision r sc
          = Inr (PyNum (anchorDistance base sc e))"
    by simp
  with nn ne min show ?thesis by simp
qed

text \<open>
  The level controller in the scene with two intersections: the probe returns 1.3, the
  lesser of the two distances; in the open scene it returns \<open>intendedDistance\<close>.
\<close>

lemma rigid_id: "rigid (\<lambda>p. p)"
  by (simp add: rigid_def)

lemma levelController_setUp:
  "collisionSetUp levelController" "colliderRadius levelController = Some (1 / 2)"
  "onSegments levelController wallScene" "onSegments levelController farWallScene"
  "onSegments levelController openScene"
  by (simp_all add: example_rigs collisionSetUp_def onSegments_def fourSegments_def
      wallScene_def farWallScene_def openScene_def)

theorem nearest_collision_distance_witness:
  "collisionSetUp levelController \<and>
   cameraBase levelController =
     Some \<lparr>node = CameraBaseNode, posX = 0, posY = 0, posZ = 2, pitch = 0\<rparr> \<and>
   colliderRadius levelController = Some (1 / 2) \<and> (0::real) \<le> 1 / 2 \<and>
   1 / 2 \<le> intendedDistance levelController \<and>
   onSegments levelController wallScene \<and> rigid (ownerToScene wallScene) \<and>
   hits wallScene \<noteq> [] \<and>
   getNearestCollision SimpleThirdPersonCameraPandaCollision levelController wallScene
     = Inr (PyNum (13 / 10)) \<and>
   Min (anchorDistance \<lparr>node = CameraBaseNode, posX = 0, posY = 0, posZ = 2, pitch = 0\<rparr>
          wallScene ` set (hits wallScene)) = 13 / 10 \<and>
   getNearestCollision SimpleThirdPersonCameraPandaCollision levelController openScene
     = Inr (PyNum (intendedDistance levelController))"
proof -
  let ?b = "\<lparr>node = CameraBaseNode, posX = 0, posY = 0, posZ = 2, pitch = 0\<rparr>"
  note f = levelController_fields
  note s = levelController_setUp
  have r: "(0::real) \<le> 1 / 2" "1 / 2 \<le> intendedDistance levelController"
    by (simp_all add: f)
  have rw: "rigid (ownerToScene wallScene)" "rigid (ownerToScene openScene)"
    by (simp_all add: wallScene_def openScene_def rigid_id)
  have ne: "hits wallScene \<noteq> []" by (simp add: wallScene_def)
  from nearest_collision_distance [OF s(1) levelController_base s(2) r s(3) rw(1)]
  obtain d where d: "getNearestCollision SimpleThirdPersonCameraPandaCollision levelController
                       wallScene = Inr (PyNum d)"
    and m: "d = Min (anchorDistance ?b wallScene ` set (hits wallScene))"
    using ne by blast
  from d wallScene_probe have "d = 13 / 10" by simp
  with m have min: "Min (anchorDistance ?b wallScene ` set (hits wallScene)) = 13 / 10" by simp
  from nearest_collision_distance [OF s(1) levelController_base s(2) r s(5) rw(2)]
  have unobstructed:
    "getNearestCollision SimpleThirdPersonCameraPandaCollision levelController openScene
       = Inr (PyNum (intendedDistance levelController))"
    by (auto simp: openScene_def)
  from s(1) levelController_base s(2) r s(3) rw(1) ne wallScene_probe min unobstructed
  show ?thesis by blast
qed

text \<open>
  The bound by \<open>intendedDistance\<close> fails: an intersection at the far end of the first
  segment of the level controller (radius 0.5, intended distance 5) is \<open>sqrt 25.25\<close>
  from the anchor, and that is what the probe returns.
\<close>

lemma sqrt_101_4: "5 < sqrt (101 / 4)"
  by (rule real_less_rsqrt) simp

theorem nearest_collision_counterexample:
  "\<not> (\<exists>d. getNearestCollision SimpleThirdPersonCameraPandaCollision levelController farWallScene
              = Inr (PyNum d) \<and>
           d \<le> intendedDistance levelController)"
proof -
  have "getNearestCollision SimpleThirdPersonCameraPandaCollision levelController farWallScene
          = Inr (PyNum (sqrt (101 / 4)))"
    by (simp add: SimpleThirdPersonCameraPandaCollision_def Panda_getNearestCollision_def
        example_rigs farWallScene_def sortEntries_def entryKey_def localSurfacePoint_def
        CollisionSegment_def getPos_def getSurfacePoint_def toParent_def vsub_def vlength_def)
  moreover have "intendedDistance levelController = 5" by (simp add: example_rigs)
  ultimately show ?thesis using sqrt_101_4 by simp
qed

end
